theory Spec2Isabelle
  imports Complex_Main "HOL-Library.AList"
begin

section \<open>JavaScript values used by the request and token code\<close>

subsection \<open>Numbers\<close>

text \<open>
  A finite number is modelled by its exact value, a rational; \<open>NaN\<close> and the two
  infinities are values of their own. Sums, differences and products of finite numbers
  are exact: the rounding of doubles to 53 bits is outside the model, and negative zero
  is not told from zero. A product or a numeric text whose exact value lies beyond the
  largest double (at or above \<open>2^1024 - 2^970\<close>, which rounds upwards) is an infinity.
\<close>

datatype number = Num rat | NaN | PosInf | NegInf

definition num :: "rat \<Rightarrow> number" where
  "num q = (if 2 ^ 1024 - 2 ^ 970 \<le> q then PosInf
            else if q \<le> - (2 ^ 1024 - 2 ^ 970) then NegInf else Num q)"

text \<open>
  The value of a property of a response body, as far as the code reads it: a JSON
  scalar, or \<open>undefined\<close> for a property that is missing. Nested objects and arrays as
  property values are outside the model.
\<close>

datatype jsval = JUndefined | JNull | JBool bool | JNum number | JStr string

text \<open>A value as a condition: \<open>undefined\<close>, \<open>null\<close>, \<open>false\<close>, zero, \<open>NaN\<close> and the
  empty string are falsy.\<close>

fun truthy_value :: "jsval \<Rightarrow> bool" where
  "truthy_value JUndefined = False"
| "truthy_value JNull = False"
| "truthy_value (JBool b) = b"
| "truthy_value (JNum x) = (x \<noteq> Num 0 \<and> x \<noteq> NaN)"
| "truthy_value (JStr s) = (s \<noteq> [])"

text \<open>Multiplication \<open>x * k\<close> of a number by a whole literal, and \<open>-x\<close>.\<close>

fun times :: "number \<Rightarrow> int \<Rightarrow> number" where
  "times (Num q) k = num (q * of_int k)"
| "times NaN k = NaN"
| "times PosInf k = (if 0 < k then PosInf else if k < 0 then NegInf else NaN)"
| "times NegInf k = (if 0 < k then NegInf else if k < 0 then PosInf else NaN)"

fun negate :: "number \<Rightarrow> number" where
  "negate (Num q) = Num (- q)"
| "negate NaN = NaN"
| "negate PosInf = NegInf"
| "negate NegInf = PosInf"

fun plus :: "number \<Rightarrow> number \<Rightarrow> number" where
  "plus (Num a) (Num b) = Num (a + b)"
| "plus NaN b = NaN"
| "plus a NaN = NaN"
| "plus PosInf NegInf = NaN"
| "plus NegInf PosInf = NaN"
| "plus PosInf b = PosInf"
| "plus NegInf b = NegInf"
| "plus a PosInf = PosInf"
| "plus a NegInf = NegInf"

definition minus :: "number \<Rightarrow> number \<Rightarrow> number" where
  "minus a b = plus a (negate b)"

text \<open>\<open>a > b\<close>, false as soon as one side is \<open>NaN\<close>.\<close>

fun greater :: "number \<Rightarrow> number \<Rightarrow> bool" where
  "greater (Num a) (Num b) = (a > b)"
| "greater NaN b = False"
| "greater a NaN = False"
| "greater NegInf b = False"
| "greater a PosInf = False"
| "greater PosInf b = True"
| "greater a NegInf = True"

text \<open>\<open>Math.floor(x / k)\<close> and \<open>Math.ceil(x / k)\<close> for a positive whole literal \<open>k\<close>, and
  \<open>Math.ceil(x)\<close>.\<close>

fun floor_div :: "number \<Rightarrow> int \<Rightarrow> number" where
  "floor_div (Num a) k = Num (of_int \<lfloor>a / of_int k\<rfloor>)"
| "floor_div x k = x"

fun ceil_div :: "number \<Rightarrow> int \<Rightarrow> number" where
  "ceil_div (Num a) k = Num (of_int \<lceil>a / of_int k\<rceil>)"
| "ceil_div x k = x"

fun ceil_num :: "number \<Rightarrow> number" where
  "ceil_num (Num a) = Num (of_int \<lceil>a\<rceil>)"
| "ceil_num x = x"

subsection \<open>Numeric texts\<close>

text \<open>
  Strings are lists of 8-bit characters, the Latin-1 range, in which Node hands over
  header values. White space of that range: tab, line feed, vertical tab, form feed,
  carriage return, space and the no-break space.
\<close>

definition is_space :: "char \<Rightarrow> bool" where
  "is_space c = (of_char c \<in> set [9, 10, 11, 12, 13, 32, 160 :: nat])"

definition trim :: "string \<Rightarrow> string" where
  "trim s = rev (dropWhile is_space (rev (dropWhile is_space s)))"

text \<open>The value of a decimal digit, by its place among the ten digits, and of a digit
  in a base up to sixteen.\<close>

fun digit_val :: "char \<Rightarrow> int option" where
  "digit_val c = map_of (zip ''0123456789'' [0, 1, 2, 3, 4, 5, 6, 7, 8, 9]) c"

definition is_digit :: "char \<Rightarrow> bool" where
  "is_digit c = (digit_val c \<noteq> None)"

definition radix_digit :: "char \<Rightarrow> int option" where
  "radix_digit c =
     map_of (zip ''0123456789abcdefABCDEF''
               [0, 1, 2, 3, 4, 5, 6, 7, 8, 9, 10, 11, 12, 13, 14, 15, 10, 11, 12, 13, 14, 15]) c"

text \<open>The value of a run of decimal digits.\<close>

fun digits_val :: "int \<Rightarrow> string \<Rightarrow> int" where
  "digits_val acc [] = acc"
| "digits_val acc (c # cs) =
     digits_val (acc * 10 + (case digit_val c of None \<Rightarrow> 0 | Some d \<Rightarrow> d)) cs"

text \<open>The value of a text that is a non-empty run of digits of the base; nothing for
  any other text.\<close>

fun radix_val :: "int \<Rightarrow> int \<Rightarrow> string \<Rightarrow> int option" where
  "radix_val b acc [] = Some acc"
| "radix_val b acc (c # cs) =
     (case radix_digit c of
        None \<Rightarrow> None
      | Some d \<Rightarrow> if d < b then radix_val b (acc * b + d) cs else None)"

definition digits_of :: "int \<Rightarrow> string \<Rightarrow> int option" where
  "digits_of b s = (if s = [] then None else radix_val b 0 s)"

text \<open>A literal with the prefix \<open>0x\<close>, \<open>0o\<close> or \<open>0b\<close>, in either case of the letter.\<close>

fun radix_literal :: "string \<Rightarrow> int option" where
  "radix_literal (z # x # ds) =
     (if z \<noteq> CHR ''0'' then None
      else if x = CHR ''x'' \<or> x = CHR ''X'' then digits_of 16 ds
      else if x = CHR ''o'' \<or> x = CHR ''O'' then digits_of 8 ds
      else if x = CHR ''b'' \<or> x = CHR ''B'' then digits_of 2 ds
      else None)"
| "radix_literal s = None"

text \<open>The exponent part of a decimal literal: nothing left is exponent 0, otherwise
  \<open>e\<close> or \<open>E\<close>, an optional sign and at least one digit.\<close>

fun signed_integer :: "string \<Rightarrow> int option" where
  "signed_integer [] = None"
| "signed_integer (c # cs) =
     (if c = CHR ''-'' then map_option uminus (digits_of 10 cs)
      else if c = CHR ''+'' then digits_of 10 cs
      else digits_of 10 (c # cs))"

fun exponent_part :: "string \<Rightarrow> int option" where
  "exponent_part [] = Some 0"
| "exponent_part (c # cs) = (if c = CHR ''e'' \<or> c = CHR ''E'' then signed_integer cs else None)"

definition pow10 :: "int \<Rightarrow> rat" where
  "pow10 e = (if 0 \<le> e then 10 ^ nat e else 1 / 10 ^ nat (- e))"

text \<open>
  An unsigned decimal literal: digits, an optional point with digits after it, an
  optional exponent; at least one digit before or after the point.
\<close>

definition unsigned_decimal :: "string \<Rightarrow> rat option" where
  "unsigned_decimal s =
     (let whole = takeWhile is_digit s;
          r1 = dropWhile is_digit s;
          point = (r1 \<noteq> [] \<and> hd r1 = CHR ''.'');
          fraction = (if point then takeWhile is_digit (tl r1) else []);
          r2 = (if point then dropWhile is_digit (tl r1) else r1)
      in if whole = [] \<and> fraction = [] then None
         else case exponent_part r2 of
                None \<Rightarrow> None
              | Some e \<Rightarrow>
                  Some (of_int (digits_val 0 (whole @ fraction)) * pow10 (e - int (length fraction))))"

definition unsigned_literal :: "string \<Rightarrow> number" where
  "unsigned_literal s =
     (if s = ''Infinity'' then PosInf
      else case unsigned_decimal s of None \<Rightarrow> NaN | Some q \<Rightarrow> num q)"

fun signed_literal :: "string \<Rightarrow> number" where
  "signed_literal [] = NaN"
| "signed_literal (c # cs) =
     (if c = CHR ''-'' then negate (unsigned_literal cs)
      else if c = CHR ''+'' then unsigned_literal cs
      else unsigned_literal (c # cs))"

text \<open>
  The coercion of a string to a number (\<open>s * 1000\<close>, \<open>+s\<close>, \<open>Math.ceil(s)\<close>): white
  space around the text is dropped; the empty text is 0; then a literal with a radix
  prefix, which takes no sign, or a signed decimal literal or \<open>Infinity\<close>; every other
  text is \<open>NaN\<close>.
\<close>

definition toNumber :: "string \<Rightarrow> number" where
  "toNumber s =
     (let t = trim s
      in if t = [] then Num 0
         else case radix_literal t of
                Some n \<Rightarrow> num (of_int n)
              | None \<Rightarrow> signed_literal t)"

section \<open>Request Executor: data model of api-request.ts\<close>

type_synonym headers = "string \<rightharpoonup> string"

text \<open>
  Response bodies as the request library hands them over: no body, a Buffer, a string,
  or a decoded JSON value, which is \<open>null\<close>, a boolean, a number, an array or an
  object (its properties as an association list; a property that is not listed reads as
  \<open>undefined\<close>). Of an array nothing is read here, so its elements are left out.
\<close>

datatype body = BUndefined | BNull | BBuffer string | BString string
  | BBool bool | BNum number | BArray
  | BObject "(string \<times> jsval) list"

text \<open>
  \<open>APIRequest~RequestObject\<close>. Request objects are mutable and shared: the error and
  the response both point at the request that produced them, so they live in a store
  and are referred to by address.
\<close>

record request_obj =
  uri :: string
  req_method :: string
  req_headers :: "headers option"

text \<open>
  \<open>APIRequest~ResponseObject\<close>; \<open>resp_request\<close> is the address of its request.
  \<open>headers_own\<close> says whether \<open>headers\<close> is a property of the response object
  itself, which \<open>hasOwnProperty('headers')\<close> asks for: it is on a plain object and on
  the \<open>IncomingMessage\<close> of Node up to 15.0; from Node 15.1 on \<open>headers\<close> is an
  accessor of the prototype, which reads the same and is no property of the object.
\<close>

record response =
  resp_request :: nat
  statusCode :: int
  resp_headers :: headers
  headers_own :: bool
  resp_body :: body

text \<open>
  Errors. \<open>origin\<close> stands for the message and the constructor of the error:
  \<open>StatusError s\<close> is the error \<open>createErrorForResponse\<close> builds, with message
  "s - reason phrase"; \<open>AuthError d\<close> is the error with the message "Auth Error: "
  followed by the text of \<open>d\<close>, and with no message of its own when there is no \<open>d\<close>;
  the other origins are named after the code that throws them.
\<close>

datatype origin = Transport string | StatusError int | StrategyError string
  | AuthError "jsval option" | UnexpectedResponseError | ResponseError string
  | TypeError | SignError string | AssertionError string

record sdk_error =
  origin :: origin
  err_request :: "nat option"
  err_response :: "response option"
  err_statusCode :: "int option"
  maxRetriesExceeded :: bool
  authExpired :: bool

definition newError :: "origin \<Rightarrow> sdk_error" where
  "newError og = \<lparr>origin = og, err_request = None, err_response = None,
     err_statusCode = None, maxRetriesExceeded = False, authExpired = False\<rparr>"

text \<open>The argument a custom retry strategy receives, and what it may return.\<close>

record retry_options =
  ro_error :: sdk_error
  numRetryAttempts :: int
  ro_numMaxRetries :: int
  ro_retryIntervalMS :: int
  totalElapsedTimeMS :: int

datatype strategy_result = RNumber number | RError sdk_error | ROther

text \<open>
  The options of one request (\<open>config.request\<close>): \<open>formData\<close> says whether
  multipart form data is set, \<open>form\<close> is the url-encoded form when present.
\<close>

record request_options =
  opt_uri :: string
  opt_method :: string
  opt_headers :: "headers option"
  formData :: bool
  form :: "(string \<rightharpoonup> string) option"

text \<open>The fields of Config that the executor and the token manager read.\<close>

record config =
  numMaxRetries :: int
  retryIntervalMS :: int
  retryStrategy :: "(retry_options \<Rightarrow> strategy_result) option"
  expirationTime :: int
  cfg_request :: request_options

subsection \<open>Private helpers\<close>

definition REMOVED_HEADER_MESSAGE :: string where
  "REMOVED_HEADER_MESSAGE = ''[REMOVED BY SDK]''"

definition INSUFFICIENT_STORAGE :: int where "INSUFFICIENT_STORAGE = 507"
definition REQUEST_TIMEOUT :: int where "REQUEST_TIMEOUT = 408"
definition TOO_MANY_REQUESTS :: int where "TOO_MANY_REQUESTS = 429"

definition HTTP_STATUS_CODE_SERVER_ERROR_BLOCK_RANGE :: "int \<times> int" where
  "HTTP_STATUS_CODE_SERVER_ERROR_BLOCK_RANGE = (500, 599)"

definition retryableStatusCodes :: "int \<Rightarrow> bool" where
  "retryableStatusCodes s = (s = REQUEST_TIMEOUT \<or> s = TOO_MANY_REQUESTS)"

definition isTemporaryError :: "response \<Rightarrow> bool" where
  "isTemporaryError r =
     (let s = statusCode r in
      if s \<noteq> INSUFFICIENT_STORAGE
         \<and> s \<ge> fst HTTP_STATUS_CODE_SERVER_ERROR_BLOCK_RANGE
         \<and> s \<le> snd HTTP_STATUS_CODE_SERVER_ERROR_BLOCK_RANGE
      then True
      else if retryableStatusCodes s then True
      else False)"

definition isClientErrorResponse :: "response \<Rightarrow> bool" where
  "isClientErrorResponse r = (400 \<le> statusCode r \<and> statusCode r < 500)"

definition createErrorForResponse :: "response \<Rightarrow> sdk_error" where
  "createErrorForResponse r = newError (StatusError (statusCode r))"

definition isRequestRetryable :: "request_options \<Rightarrow> bool" where
  "isRequestRetryable options = (\<not> formData options)"

text \<open>A header value is overwritten only when it is present and not the empty string.\<close>

definition redact :: "string \<Rightarrow> headers \<Rightarrow> headers" where
  "redact k h =
     (case h k of
        None \<Rightarrow> h
      | Some v \<Rightarrow> if v = [] then h else h(k \<mapsto> REMOVED_HEADER_MESSAGE))"

definition cleanSensitiveHeaders :: "request_obj \<Rightarrow> request_obj" where
  "cleanSensitiveHeaders req =
     (case req_headers req of
        None \<Rightarrow> req
      | Some h \<Rightarrow> req\<lparr>req_headers := Some (redact ''Authorization'' (redact ''BoxApi'' h))\<rparr>)"

subsection \<open>The APIRequest class\<close>

text \<open>
  One APIRequest instance together with the effects it has on its surroundings:
  \<open>heap\<close> is the store of request objects (an address is an index), \<open>emitted\<close> the
  \<open>'response'\<close> events put on the event bus, \<open>delivered\<close> the calls of the callback
  that \<open>_finish\<close> queues, and \<open>timers\<close> the delays passed to
  \<open>setTimeout(this.execute, delay)\<close>, each list in the order of the calls.
  An event and a callback call are the pair (error, response).
\<close>

record exec =
  this_config :: config
  isRetryable :: bool
  this_callback :: bool
  this_request :: "nat option"
  this_stream :: "nat option"
  numRetries :: "int option"
  heap :: "request_obj list"
  emitted :: "(sdk_error option \<times> response option) list"
  delivered :: "(sdk_error option \<times> response option) list"
  timers :: "number list"

text \<open>What one step ends with: the callback was queued, a retry was scheduled, or the
  step threw.\<close>

datatype action = Done | Retrying number | Threw origin

definition APIRequest :: "config \<Rightarrow> request_obj list \<Rightarrow> exec" where
  "APIRequest cfg h =
     \<lparr>this_config = cfg, isRetryable = isRequestRetryable (cfg_request cfg),
      this_callback = False, this_request = None, this_stream = None,
      numRetries = None, heap = h, emitted = [], delivered = [], timers = []\<rparr>"

text \<open>
  The request library builds the request object from the options; the object carries
  its own copy of the headers given in the options.
\<close>

definition request_lib :: "request_options \<Rightarrow> request_obj" where
  "request_lib options =
     \<lparr>uri = opt_uri options, req_method = opt_method options,
      req_headers = Some (case opt_headers options of None \<Rightarrow> Map.empty | Some h \<Rightarrow> h)\<rparr>"

definition emit :: "sdk_error option \<Rightarrow> response option \<Rightarrow> exec \<Rightarrow> exec" where
  "emit err resp st = st\<lparr>emitted := emitted st @ [(err, resp)]\<rparr>"

text \<open>
  \<open>execute(callback?)\<close>: the argument says whether a callback was passed. With a
  callback (now or on an earlier call) the request is buffered and its result goes to
  \<open>handleResponse\<close>; without one the request object is also the stream, and its
  \<open>'error'\<close> and \<open>'response'\<close> events go to the two stream handlers below.
\<close>

definition execute :: "bool \<Rightarrow> exec \<Rightarrow> exec" where
  "execute callback st0 =
     (let st = st0\<lparr>this_callback := callback \<or> this_callback st0\<rparr>;
          a = length (heap st);
          st1 = st\<lparr>heap := heap st @ [request_lib (cfg_request (this_config st))],
                    this_request := Some a\<rparr>
      in if this_callback st then st1 else st1\<lparr>this_stream := Some a\<rparr>)"

definition on_stream_error :: "sdk_error \<Rightarrow> exec \<Rightarrow> exec" where
  "on_stream_error err st = emit (Some err) None st"

definition on_stream_response :: "response \<Rightarrow> exec \<Rightarrow> exec" where
  "on_stream_response r st =
     (if isClientErrorResponse r then emit (Some (createErrorForResponse r)) None st
      else emit None (Some r) st)"

definition finish :: "sdk_error option \<Rightarrow> response option \<Rightarrow> exec \<Rightarrow> action \<times> exec" where
  "finish err resp st =
     (case err of
        Some e \<Rightarrow> (Done, st\<lparr>delivered := delivered st @ [(Some e, None)]\<rparr>)
      | None \<Rightarrow> (Done, st\<lparr>delivered := delivered st @ [(None, resp)]\<rparr>))"

definition schedule :: "number \<Rightarrow> exec \<Rightarrow> action \<times> exec" where
  "schedule delay st = (Retrying delay, st\<lparr>timers := timers st @ [delay]\<rparr>)"

text \<open>
  The \<open>retry-after\<close> header as \<open>_retry\<close> and \<open>retryJWTGrant\<close> look for it: the
  error has a property \<open>response\<close>, the response has a property \<open>headers\<close> of its
  own, and the headers have the property \<open>retry-after\<close>.
\<close>

definition retry_after :: "sdk_error \<Rightarrow> string option" where
  "retry_after err =
     (case err_response err of
        None \<Rightarrow> None
      | Some r \<Rightarrow> if headers_own r then resp_headers r ''retry-after'' else None)"

text \<open>
  \<open>_retry(err)\<close>. \<open>getRetryTimeout\<close> (util/exponential-backoff, randomised) is a
  parameter, and so is the elapsed time, which the code reads from the clock against
  the module-wide \<open>asyncRequestTimer\<close> that \<open>execute\<close> starts; only the retry
  strategy ever sees it.
\<close>

definition retry ::
  "(int \<Rightarrow> int \<Rightarrow> number) \<Rightarrow> int \<Rightarrow> sdk_error \<Rightarrow> exec \<Rightarrow> action \<times> exec" where
  "retry getRetryTimeout elapsedMS err st0 =
     (let n = (case numRetries st0 of None \<Rightarrow> 0 | Some k \<Rightarrow> k);
          st = st0\<lparr>numRetries := Some n\<rparr>;
          cfg = this_config st
      in if n < numMaxRetries cfg then
           (let st1 = st\<lparr>numRetries := Some (n + 1)\<rparr> in
            case retryStrategy cfg of
              Some strategy \<Rightarrow>
                (case strategy \<lparr>ro_error = err, numRetryAttempts = n + 1,
                                 ro_numMaxRetries = numMaxRetries cfg,
                                 ro_retryIntervalMS = retryIntervalMS cfg,
                                 totalElapsedTimeMS = elapsedMS\<rparr> of
                   RNumber t \<Rightarrow> schedule t st1
                 | RError e \<Rightarrow> finish (Some e) None st1
                 | ROther \<Rightarrow> finish (Some err) None st1)
            | None \<Rightarrow>
                (case retry_after err of
                   Some v \<Rightarrow> schedule (times (toNumber v) 1000) st1
                 | None \<Rightarrow> schedule (getRetryTimeout (n + 1) (retryIntervalMS cfg)) st1))
         else finish (Some (err\<lparr>maxRetriesExceeded := True\<rparr>)) None st)"

definition JWT_BEARER :: string where
  "JWT_BEARER = ''urn:ietf:params:oauth:grant-type:jwt-bearer''"

definition isJWT :: "request_options \<Rightarrow> bool" where
  "isJWT options =
     (case form options of
        None \<Rightarrow> False
      | Some f \<Rightarrow> (case f ''grant_type'' of None \<Rightarrow> False | Some g \<Rightarrow> g = JWT_BEARER))"

text \<open>
  The error the handler goes on with: the transport's error when there is one;
  otherwise a response with a temporary status "is considered an error as well", and
  any other response is none.
\<close>

definition classify :: "sdk_error option \<Rightarrow> response option \<Rightarrow> sdk_error option" where
  "classify err resp =
     (case err of
        Some e \<Rightarrow> Some e
      | None \<Rightarrow>
          (case resp of
             None \<Rightarrow> None
           | Some r \<Rightarrow> if isTemporaryError r then Some (createErrorForResponse r) else None))"

text \<open>"Attach request & response information to the error object."\<close>

definition attach :: "nat \<Rightarrow> response option \<Rightarrow> sdk_error \<Rightarrow> sdk_error" where
  "attach a resp e =
     (let e1 = e\<lparr>err_request := Some a\<rparr>
      in case resp of
           None \<Rightarrow> e1
         | Some r \<Rightarrow> e1\<lparr>err_response := Some r, err_statusCode := Some (statusCode r)\<rparr>)"

text \<open>
  \<open>_handleResponse(err, response)\<close>, the callback of a buffered request. Reading the
  headers of a missing request object, or the status of a missing response when there
  is no error either, throws a TypeError.
\<close>

definition handleResponse ::
  "(int \<Rightarrow> int \<Rightarrow> number) \<Rightarrow> int \<Rightarrow> sdk_error option \<Rightarrow> response option \<Rightarrow> exec
     \<Rightarrow> action \<times> exec" where
  "handleResponse getRetryTimeout elapsedMS err resp st0 =
     (case this_request st0 of
        None \<Rightarrow> (Threw TypeError, st0)
      | Some a \<Rightarrow>
          if \<not> a < length (heap st0) then (Threw TypeError, st0)
          else
            (let st = st0\<lparr>heap := (heap st0)[a := cleanSensitiveHeaders (heap st0 ! a)]\<rparr> in
             if err = None \<and> resp = None then (Threw TypeError, st)
             else
               (case classify err resp of
                  Some e \<Rightarrow>
                    (let e2 = attach a resp e;
                         st1 = emit (Some e2) None st
                     in if isRetryable st1 \<and> \<not> isJWT (cfg_request (this_config st1))
                        then retry getRetryTimeout elapsedMS e2 st1
                        else finish (Some e2) None st1)
                | None \<Rightarrow> finish None resp (emit None resp st))))"

text \<open>
  One logical buffered request: \<open>execute(callback)\<close>, then for each result the
  transport produces (error, response, clock reading) the handler, and after a
  scheduled retry \<open>execute()\<close> again when the timer fires. The list holds the results
  of the successive attempts; when it runs out the request is still in flight.
\<close>

record attempt =
  att_err :: "sdk_error option"
  att_response :: "response option"
  att_elapsedMS :: int

fun attempts :: "(int \<Rightarrow> int \<Rightarrow> number) \<Rightarrow> attempt list \<Rightarrow> exec \<Rightarrow> exec" where
  "attempts getRetryTimeout [] st = st"
| "attempts getRetryTimeout (a # as) st =
     (case handleResponse getRetryTimeout (att_elapsedMS a) (att_err a) (att_response a) st of
        (Retrying d, st') \<Rightarrow> attempts getRetryTimeout as (execute False st')
      | (Done, st') \<Rightarrow> st'
      | (Threw e, st') \<Rightarrow> st')"

definition run :: "(int \<Rightarrow> int \<Rightarrow> number) \<Rightarrow> attempt list \<Rightarrow> exec \<Rightarrow> exec" where
  "run getRetryTimeout as st = attempts getRetryTimeout as (execute True st)"

section \<open>Token Manager (token-manager.js)\<close>

subsection \<open>Reading a response body\<close>

definition nullish :: "body \<Rightarrow> bool" where
  "nullish b = (b = BUndefined \<or> b = BNull)"

text \<open>\<open>body instanceof Buffer\<close>.\<close>

fun isBuffer :: "body \<Rightarrow> bool" where
  "isBuffer (BBuffer x) = True"
| "isBuffer b = False"

text \<open>\<open>body && ...\<close>: no body, \<open>null\<close>, \<open>false\<close>, zero, \<open>NaN\<close> and the empty
  string are falsy.\<close>

fun truthy_body :: "body \<Rightarrow> bool" where
  "truthy_body BUndefined = False"
| "truthy_body BNull = False"
| "truthy_body (BString s) = (s \<noteq> [])"
| "truthy_body (BBool b) = b"
| "truthy_body (BNum x) = (x \<noteq> Num 0 \<and> x \<noteq> NaN)"
| "truthy_body b = True"

text \<open>
  \<open>body.k\<close> for a body that is not \<open>undefined\<close> or \<open>null\<close> (on those the read
  throws, which the callers below check first): a property of a JSON object, and
  \<open>undefined\<close> on every other body, which has none of the properties read here.
\<close>

fun get :: "body \<Rightarrow> string \<Rightarrow> jsval" where
  "get (BObject kv) k = (case map_of kv k of None \<Rightarrow> JUndefined | Some v \<Rightarrow> v)"
| "get b k = JUndefined"

subsection \<open>Numbers and strings\<close>

definition digit_char :: "nat \<Rightarrow> char" where
  "digit_char d = (''0123456789'' ! d)"

function show_nat :: "nat \<Rightarrow> string" where
  "show_nat n = (if n < 10 then [digit_char n] else show_nat (n div 10) @ [digit_char (n mod 10)])"
  by pat_completeness auto
termination
  by (relation "measure (\<lambda>n. n)") auto

declare show_nat.simps [simp del]

text \<open>
  The text of a whole number, as string concatenation produces it: its digits below
  \<open>10^21\<close>, and from there on the first digit, the digits after it up to the last one
  that is not 0, and the exponent.
\<close>

definition exponent_text :: "string \<Rightarrow> string" where
  "exponent_text ds =
     (let m = rev (dropWhile (\<lambda>c. c = CHR ''0'') (rev ds))
      in hd m # (if tl m = [] then [] else CHR ''.'' # tl m) @ ''e+'' @ show_nat (length ds - 1))"

definition show_int :: "int \<Rightarrow> string" where
  "show_int i =
     (if i < 0 then ''-'' else [])
     @ (if \<bar>i\<bar> < 10 ^ 21 then show_nat (nat \<bar>i\<bar>) else exponent_text (show_nat (nat \<bar>i\<bar>)))"

text \<open>The part of a number before the point, and the first digit of a positive number:
  of its whole part when it is at least 1, after the zeros when it is below 1.\<close>

definition integer_part :: "rat \<Rightarrow> int" where
  "integer_part q = (if q < 0 then - \<lfloor>- q\<rfloor> else \<lfloor>q\<rfloor>)"

function leading_digit :: "rat \<Rightarrow> int" where
  "leading_digit q = (if q < 10 then \<lfloor>q\<rfloor> else leading_digit (q / 10))"
  by pat_completeness auto
termination
proof (relation "measure (\<lambda>q. nat \<lfloor>q\<rfloor>)")
  show "wf (measure (\<lambda>q. nat \<lfloor>q\<rfloor>))" by simp
next
  fix q :: rat
  assume "\<not> q < 10"
  then have "q / 10 \<le> q - 9" by simp
  then have "\<lfloor>q / 10\<rfloor> \<le> \<lfloor>q - 9\<rfloor>" by (rule floor_mono)
  moreover have "\<lfloor>q - 9\<rfloor> = \<lfloor>q\<rfloor> - 9" by simp
  moreover have "10 \<le> \<lfloor>q\<rfloor>" using \<open>\<not> q < 10\<close> by (simp add: le_floor_iff)
  ultimately show "(q / 10, q) \<in> measure (\<lambda>q. nat \<lfloor>q\<rfloor>)" by simp
qed

function first_significant :: "rat \<Rightarrow> int" where
  "first_significant q =
     (if q \<le> 0 \<or> 1 \<le> q then \<lfloor>q\<rfloor> else first_significant (q * 10))"
  by pat_completeness auto
termination
proof (relation "measure (\<lambda>q. nat \<lceil>1 / q\<rceil>)")
  show "wf (measure (\<lambda>q. nat \<lceil>1 / q\<rceil>))" by simp
next
  fix q :: rat
  assume "\<not> (q \<le> 0 \<or> 1 \<le> q)"
  then have q: "0 < q" "q < 1" by simp_all
  then have "1 < 1 / q" by simp
  then have c: "2 \<le> \<lceil>1 / q\<rceil>" by (simp add: le_ceiling_iff)
  then have c2: "(2 :: rat) \<le> of_int \<lceil>1 / q\<rceil>"
    by (metis of_int_le_iff of_int_numeral)
  have "1 / (q * 10) = (1 / q) / 10" by simp
  also have "\<dots> \<le> of_int \<lceil>1 / q\<rceil> / 10" by (simp add: divide_right_mono)
  also have "\<dots> \<le> of_int \<lceil>1 / q\<rceil> - 1" using c2 by linarith
  also have "\<dots> = of_int (\<lceil>1 / q\<rceil> - 1)" by simp
  finally have "\<lceil>1 / (q * 10)\<rceil> \<le> \<lceil>1 / q\<rceil> - 1" by (simp only: ceiling_le_iff)
  then show "(q * 10, q) \<in> measure (\<lambda>q. nat \<lceil>1 / q\<rceil>)" using c q by simp
qed

declare leading_digit.simps [simp del]
declare first_significant.simps [simp del]

text \<open>
  The number a text begins with, for \<open>parseInt\<close>: the digits up to the first
  character that is no digit, and \<open>NaN\<close> when there is none.
\<close>

definition leading_integer :: "string \<Rightarrow> number" where
  "leading_integer s =
     (if takeWhile is_digit s = [] then NaN
      else num (of_int (digits_val 0 (takeWhile is_digit s))))"

text \<open>
  \<open>parseInt(v, 10)\<close>. The value is turned into its text and the text is read. A
  finite number from \<open>10^-6\<close> up to \<open>10^21\<close> in size prints in decimal notation, so
  what is read is its part before the point; outside that range it prints as a first
  digit, further digits after a point, and an exponent, so what is read is the first
  digit. \<open>NaN\<close> and the infinities print as words. Of a string the leading white
  space is skipped, then an optional sign and the leading digits are read. Everything
  else prints as a word and reads as \<open>NaN\<close>.
\<close>

fun parseInt10 :: "jsval \<Rightarrow> number" where
  "parseInt10 (JNum (Num q)) =
     Num (of_int
       (if q = 0 then 0
        else if 10 ^ 21 \<le> \<bar>q\<bar> then (if q < 0 then - 1 else 1) * leading_digit \<bar>q\<bar>
        else if \<bar>q\<bar> < 1 / 10 ^ 6 then (if q < 0 then - 1 else 1) * first_significant \<bar>q\<bar>
        else integer_part q))"
| "parseInt10 (JNum x) = NaN"
| "parseInt10 (JStr s) =
     (case dropWhile is_space s of
        [] \<Rightarrow> NaN
      | c # cs \<Rightarrow>
          if c = CHR ''-'' then negate (leading_integer cs)
          else if c = CHR ''+'' then leading_integer cs
          else leading_integer (c # cs))"
| "parseInt10 v = NaN"

text \<open>\<open>s.indexOf(sub) > -1\<close>: \<open>sub\<close> occurs in \<open>s\<close>.\<close>

fun starts_with :: "string \<Rightarrow> string \<Rightarrow> bool" where
  "starts_with [] s = True"
| "starts_with (c # cs) [] = False"
| "starts_with (c # cs) (d # ds) = (c = d \<and> starts_with cs ds)"

fun contains :: "string \<Rightarrow> string \<Rightarrow> bool" where
  "contains sub [] = (sub = [])"
| "contains sub (c # cs) = (starts_with sub (c # cs) \<or> contains sub cs)"

subsection \<open>Errors built by util/errors\<close>

text \<open>
  Modelled from the spec: the implementation of util/errors is not among the sources,
  only the declarations of its functions and their calls. A response error carries the
  response and its status code; an authentication error is a response error marked
  \<open>authExpired\<close>; the unexpected-response error is a response error with a fixed
  message.
\<close>

definition buildResponseError :: "response \<Rightarrow> origin \<Rightarrow> sdk_error" where
  "buildResponseError r og =
     \<lparr>origin = og, err_request = Some (resp_request r), err_response = Some r,
      err_statusCode = Some (statusCode r), maxRetriesExceeded = False, authExpired = False\<rparr>"

definition buildAuthError :: "response \<Rightarrow> jsval option \<Rightarrow> sdk_error" where
  "buildAuthError r msg = (buildResponseError r (AuthError msg))\<lparr>authExpired := True\<rparr>"

definition buildUnexpectedResponseError :: "response \<Rightarrow> sdk_error" where
  "buildUnexpectedResponseError r = buildResponseError r UnexpectedResponseError"

subsection \<open>Private functions\<close>

definition isJWTAuthErrorRetryable_status :: "sdk_error \<Rightarrow> bool" where
  "isJWTAuthErrorRetryable_status err =
     (case err_statusCode err of None \<Rightarrow> False | Some s \<Rightarrow> s = 429 \<or> s \<ge> 500)"

text \<open>\<open>headers.date\<close> as a condition: the header is there and is not empty.\<close>

definition has_date :: "response \<Rightarrow> bool" where
  "has_date r = (case resp_headers r ''date'' of None \<Rightarrow> False | Some d \<Rightarrow> d \<noteq> [])"

text \<open>
  \<open>isJWTAuthErrorRetryable(err)\<close>. The first condition reads \<open>err.response.headers\<close>
  and calls \<open>indexOf\<close> on \<open>err.response.body.error_description\<close>; where the response,
  the body or a description of type string is missing this throws a TypeError. The
  second condition is the \<open>else if\<close> on the status code.
\<close>

definition isJWTAuthErrorRetryable :: "sdk_error \<Rightarrow> origin + bool" where
  "isJWTAuthErrorRetryable err =
     (if authExpired err then
        (case err_response err of
           None \<Rightarrow> Inl TypeError
         | Some r \<Rightarrow>
             if has_date r then
               (if nullish (resp_body r) then Inl TypeError
                else case get (resp_body r) ''error_description'' of
                       JStr d \<Rightarrow>
                         if contains ''exp'' d \<or> contains ''jti'' d then Inr True
                         else Inr (isJWTAuthErrorRetryable_status err)
                     | JUndefined \<Rightarrow> Inl TypeError
                     | JNull \<Rightarrow> Inl TypeError
                     | JBool b \<Rightarrow> Inl TypeError
                     | JNum n \<Rightarrow> Inl TypeError)
             else Inr (isJWTAuthErrorRetryable_status err))
      else Inr (isJWTAuthErrorRetryable_status err))"

text \<open>
  TokenInfo. A field that may be \<open>undefined\<close> is an option; the two tokens are
  whatever the response body holds under their names.
\<close>

record token_info =
  accessToken :: jsval
  refreshToken :: jsval
  accessTokenTTLMS :: "number option"
  acquiredAtMS :: "number option"

text \<open>\<open>getTokensFromGrantResponse\<close>; \<open>now\<close> is what \<open>Date.now()\<close> returns.\<close>

definition getTokensFromGrantResponse :: "int \<Rightarrow> body \<Rightarrow> token_info" where
  "getTokensFromGrantResponse now grantResponseBody =
     \<lparr>accessToken = get grantResponseBody ''access_token'',
      refreshToken = get grantResponseBody ''refresh_token'',
      accessTokenTTLMS = Some (times (parseInt10 (get grantResponseBody ''expires_in'')) 1000),
      acquiredAtMS = Some (Num (of_int now))\<rparr>"

definition isValidCodeOrToken :: "jsval \<Rightarrow> bool" where
  "isValidCodeOrToken codeOrToken =
     (case codeOrToken of JStr s \<Rightarrow> length s > 0 | JUndefined \<Rightarrow> False | JNull \<Rightarrow> False
      | JBool b \<Rightarrow> False | JNum n \<Rightarrow> False)"

definition is_number :: "jsval \<Rightarrow> bool" where
  "is_number v = (case v of JNum n \<Rightarrow> True | JUndefined \<Rightarrow> False | JNull \<Rightarrow> False
      | JBool b \<Rightarrow> False | JStr s \<Rightarrow> False)"

text \<open>\<open>isValidTokenResponse\<close>, for a body that is not \<open>undefined\<close> or \<open>null\<close>.\<close>

definition isValidTokenResponse :: "string \<Rightarrow> body \<Rightarrow> bool" where
  "isValidTokenResponse grantType responseBody =
     (if \<not> isValidCodeOrToken (get responseBody ''access_token'') then False
      else if \<not> is_number (get responseBody ''expires_in'') then False
      else if grantType = ''authorization_code'' \<or> grantType = ''refresh_token'' then
        (if \<not> isValidCodeOrToken (get responseBody ''refresh_token'') then False else True)
      else True)"

subsection \<open>The TokenManager class\<close>

text \<open>
  \<open>isAccessTokenValid(tokenInfo, bufferMS)\<close>; \<open>now\<close> is what \<open>Date.now()\<close>
  returns, and a buffer that is left out is \<open>None\<close>. \<open>bufferMS || 0\<close> replaces a
  missing buffer, and \<open>NaN\<close>, by 0 (and 0 by itself).
\<close>

definition isAccessTokenValid :: "int \<Rightarrow> token_info \<Rightarrow> number option \<Rightarrow> bool" where
  "isAccessTokenValid now tokenInfo bufferMS =
     (case acquiredAtMS tokenInfo of
        None \<Rightarrow> False
      | Some acquired \<Rightarrow>
          (case accessTokenTTLMS tokenInfo of
             None \<Rightarrow> False
           | Some ttl \<Rightarrow>
               (let buffer = (case bufferMS of
                                None \<Rightarrow> Num 0
                              | Some b \<Rightarrow> if b = NaN then Num 0 else b);
                    expireTime = minus (plus acquired ttl) buffer
                in greater expireTime (Num (of_int now)))))"

text \<open>
  \<open>getTokens(formParams, options)\<close>, from the point where the request manager's promise
  settles: \<open>result\<close> is its rejection or the response it resolves to, \<open>grant_type\<close> is
  \<open>formParams.grant_type\<close>. The value is the rejection or the resolution of the
  promise \<open>getTokens\<close> returns. \<open>isValidTokenResponse\<close> reads a property of the body,
  which throws a TypeError inside the promise when the body is \<open>undefined\<close> or
  \<open>null\<close>.
\<close>

definition getTokens :: "int \<Rightarrow> string \<Rightarrow> sdk_error + response \<Rightarrow> sdk_error + token_info" where
  "getTokens now grant_type result =
     (case result of
        Inl err \<Rightarrow> Inl err
      | Inr r \<Rightarrow>
          if truthy_body (resp_body r)
             \<and> get (resp_body r) ''error'' = JStr ''invalid_grant''
          then Inl (buildAuthError r
                 (if truthy_value (get (resp_body r) ''error_description'')
                  then Some (get (resp_body r) ''error_description'') else None))
          else if statusCode r \<noteq> 200 \<or> isBuffer (resp_body r)
          then Inl (buildUnexpectedResponseError r)
          else if nullish (resp_body r) then Inl (newError TypeError)
          else if \<not> isValidTokenResponse grant_type (resp_body r)
          then Inl (buildResponseError r (ResponseError ''Token format from response invalid''))
          else Inr (getTokensFromGrantResponse now (resp_body r)))"

text \<open>
  One round of \<open>retryJWTGrant\<close>: it throws, or it signs a new assertion and returns
  \<open>Promise.delay(retryTimeoutinSeconds)\<close> followed by the next \<open>getTokens\<close>, whose
  failure comes back here with the incremented retry count.
  \<open>retryTimeoutinSeconds\<close> is a number (from the strategy or the backoff) or the text
  of the \<open>retry-after\<close> header.
\<close>

datatype timeout_val = TNum number | TStr string

text \<open>
  The text of \<open>time + expirationTime\<close>, where \<open>time\<close> is
  \<open>Math.floor(ms / 1000)\<close> of a clock reading or of \<open>Date.parse\<close> and the
  expiration time is a whole number of seconds (the Config constructor admits no other).
\<close>

fun seconds_text :: "number \<Rightarrow> int \<Rightarrow> string" where
  "seconds_text (Num ms) e = show_int (\<lfloor>ms / 1000\<rfloor> + e)"
| "seconds_text NaN e = ''NaN''"
| "seconds_text PosInf e = ''Infinity''"
| "seconds_text NegInf e = ''-Infinity''"

text \<open>
  \<open>Math.ceil(time + expirationTime + retryTimeoutinSeconds)\<close>: with a string on the
  right the sum is the concatenation of the texts, read back as a number.
\<close>

fun claims_exp :: "number \<Rightarrow> int \<Rightarrow> timeout_val \<Rightarrow> number" where
  "claims_exp ms e (TNum t) = ceil_num (plus (plus (floor_div ms 1000) (Num (of_int e))) t)"
| "claims_exp ms e (TStr s) = ceil_num (toNumber (seconds_text ms e @ s))"

text \<open>\<open>Promise.delay(ms)\<close> of bluebird takes milliseconds and coerces its argument.\<close>

fun delay_ms :: "timeout_val \<Rightarrow> number" where
  "delay_ms (TNum t) = t"
| "delay_ms (TStr s) = toNumber s"

datatype jwt_step =
  Throw sdk_error
  | Delay number number string int

text \<open>
  \<open>Delay ms exp assertion n\<close>: wait \<open>ms\<close> milliseconds, then request tokens with the
  assertion signed for expiry \<open>exp\<close>, with \<open>n\<close> retries counted. Parameters:
  \<open>getRetryTimeout\<close> (util/exponential-backoff), the clock readings \<open>elapsedMS\<close> and
  \<open>now\<close>, \<open>dateParse\<close> for \<open>Date.parse\<close>, and \<open>sign\<close> for \<open>jwt.sign\<close> with a
  fresh JWT ID, as a function of the expiry claim that returns the assertion or the
  error it throws.
\<close>

definition retryJWTGrant ::
  "(int \<Rightarrow> int \<Rightarrow> number) \<Rightarrow> int \<Rightarrow> int \<Rightarrow> (string \<Rightarrow> number) \<Rightarrow> (number \<Rightarrow> sdk_error + string)
     \<Rightarrow> config \<Rightarrow> sdk_error \<Rightarrow> int \<Rightarrow> jwt_step" where
  "retryJWTGrant getRetryTimeout elapsedMS now dateParse sign cfg error numRetries0 =
     (let giveUp = (if numRetries0 \<ge> numMaxRetries cfg
                    then Throw (error\<lparr>maxRetriesExceeded := True\<rparr>) else Throw error)
      in if \<not> numRetries0 < numMaxRetries cfg then giveUp
         else case isJWTAuthErrorRetryable error of
           Inl t \<Rightarrow> Throw (newError t)
         | Inr False \<Rightarrow> giveUp
         | Inr True \<Rightarrow>
            (let numRetries1 = numRetries0 + 1;
                 chosen =
                   (case retryStrategy cfg of
                      Some strategy \<Rightarrow>
                        (case strategy \<lparr>ro_error = error, numRetryAttempts = numRetries1,
                                         ro_numMaxRetries = numMaxRetries cfg,
                                         ro_retryIntervalMS = retryIntervalMS cfg,
                                         totalElapsedTimeMS = elapsedMS\<rparr> of
                           RNumber t \<Rightarrow> Inr (TNum t)
                         | RError e \<Rightarrow> Inl e
                         | ROther \<Rightarrow> Inl error)
                    | None \<Rightarrow>
                        (case retry_after error of
                           Some v \<Rightarrow> Inr (TStr v)
                         | None \<Rightarrow>
                             Inr (TNum (ceil_div (getRetryTimeout numRetries1 (retryIntervalMS cfg)) 1000))))
             in case chosen of
                  Inl e \<Rightarrow> Throw e
                | Inr retryTimeoutinSeconds \<Rightarrow>
                    (case err_response error of
                       None \<Rightarrow> Throw (newError TypeError)
                     | Some r \<Rightarrow>
                         (let ms = (if has_date r then dateParse (the (resp_headers r ''date''))
                                    else Num (of_int now));
                              exp = claims_exp ms (expirationTime cfg) retryTimeoutinSeconds
                          in case sign exp of
                               Inl jwtErr \<Rightarrow> Throw jwtErr
                             | Inr assertion \<Rightarrow>
                                 Delay (delay_ms retryTimeoutinSeconds) exp assertion numRetries1))))"

section \<open>Concrete inputs\<close>

text \<open>A request with both sensitive headers, a configuration, a backoff function and
  responses, for the closed examples.\<close>

definition ex_options :: request_options where
  "ex_options =
     \<lparr>opt_uri = ''https://api.box.com/2.0/files/1'', opt_method = ''GET'',
      opt_headers = Some [''Authorization'' \<mapsto> ''Bearer t0ken'', ''BoxApi'' \<mapsto> ''shared_link=s''],
      formData = False, form = None\<rparr>"

definition ex_config :: "int \<Rightarrow> config" where
  "ex_config m =
     \<lparr>numMaxRetries = m, retryIntervalMS = 2000, retryStrategy = None,
      expirationTime = 30, cfg_request = ex_options\<rparr>"

text \<open>The same configuration for a multipart upload and for a JWT grant request.\<close>

definition ex_multipart :: "int \<Rightarrow> config" where
  "ex_multipart m = (ex_config m)\<lparr>cfg_request := ex_options\<lparr>formData := True\<rparr>\<rparr>"

definition ex_jwt_grant :: "int \<Rightarrow> config" where
  "ex_jwt_grant m =
     (ex_config m)\<lparr>cfg_request :=
        ex_options\<lparr>opt_method := ''POST'', form := Some [''grant_type'' \<mapsto> JWT_BEARER]\<rparr>\<rparr>"

definition ex_backoff :: "int \<Rightarrow> int \<Rightarrow> number" where
  "ex_backoff n i = Num (of_int (i * 2 ^ nat (n - 1)))"

definition ex_response :: "int \<Rightarrow> headers \<Rightarrow> body \<Rightarrow> response" where
  "ex_response s h b =
     \<lparr>resp_request = 0, statusCode = s, resp_headers = h, headers_own = True, resp_body = b\<rparr>"

definition ex_attempt :: "int \<Rightarrow> attempt" where
  "ex_attempt s =
     \<lparr>att_err = None, att_response = Some (ex_response s Map.empty BUndefined),
      att_elapsedMS = 12\<rparr>"

section \<open>Invariants used in the proofs\<close>

text \<open>The retry counter read the way \<open>_retry\<close> reads it, and the invariant of the retry
  loop: no more timers than counted retries, and no more counted retries than the
  budget.\<close>

definition retries_so_far :: "exec \<Rightarrow> int" where
  "retries_so_far st = (case numRetries st of None \<Rightarrow> 0 | Some k \<Rightarrow> k)"

definition budget_inv :: "exec \<Rightarrow> bool" where
  "budget_inv st =
     (int (length (timers st)) \<le> retries_so_far st
      \<and> retries_so_far st \<le> max 0 (numMaxRetries (this_config st)))"

definition ex_rate_limited :: sdk_error where
  "ex_rate_limited =
     attach 0 (Some (ex_response 429 [''retry-after'' \<mapsto> ''5''] BUndefined))
       (createErrorForResponse (ex_response 429 [''retry-after'' \<mapsto> ''5''] BUndefined))"

definition ex_token :: token_info where
  "ex_token =
     \<lparr>accessToken = JStr ''a1'', refreshToken = JStr ''r1'',
      accessTokenTTLMS = Some (Num 3600000), acquiredAtMS = Some (Num 1700000000000)\<rparr>"

definition ex_grant_body :: body where
  "ex_grant_body =
     BObject [(''access_token'', JStr ''a1''), (''refresh_token'', JStr ''r1''),
              (''expires_in'', JNum (Num 3600))]"

definition ex_expired_jwt :: sdk_error where
  "ex_expired_jwt =
     buildAuthError
       (ex_response 400 [''date'' \<mapsto> ''Tue, 14 Nov 2023 22:13:20 GMT'']
          (BObject [(''error'', JStr ''invalid_grant''),
                    (''error_description'', JStr ''Please check the exp claim'')]))
       (Some (JStr ''Please check the exp claim''))"

text \<open>A response with status 507 to a JWT grant: \<open>invalid_grant\<close> without a
  description, with the \<open>Date\<close> header every response carries.\<close>

definition ex_storage_full :: response where
  "ex_storage_full =
     ex_response 507 [''date'' \<mapsto> ''Tue, 14 Nov 2023 22:13:20 GMT'']
       (BObject [(''error'', JStr ''invalid_grant'')])"

text \<open>The authentication error with that response: marked \<open>authExpired\<close>, with the
  response and its status code, and with no message, there being no description.\<close>

definition ex_auth_expired_507 :: sdk_error where
  "ex_auth_expired_507 =
     \<lparr>origin = AuthError None, err_request = Some 0, err_response = Some ex_storage_full,
      err_statusCode = Some 507, maxRetriesExceeded = False, authExpired = True\<rparr>"

section \<open>The conditions of the specification, in its words\<close>

text \<open>
  The description of the error "mentions an expiry or JWT-ID problem": it is a string
  in which \<open>exp\<close> or \<open>jti\<close> occurs.
\<close>

definition mentions_exp_or_jti :: "response \<Rightarrow> bool" where
  "mentions_exp_or_jti r =
     (case get (resp_body r) ''error_description'' of
        JStr d \<Rightarrow> contains ''exp'' d \<or> contains ''jti'' d
      | JUndefined \<Rightarrow> False | JNull \<Rightarrow> False | JBool b \<Rightarrow> False | JNum n \<Rightarrow> False)"

text \<open>
  Retryable by the specification: the error indicates auth-expired and its response
  carries a \<open>date\<close> header and its description mentions an expiry or JWT-ID problem,
  or the status is 429 or at least 500.
\<close>

definition retryable_by_spec :: "sdk_error \<Rightarrow> bool" where
  "retryable_by_spec err =
     ((authExpired err
       \<and> (case err_response err of
            None \<Rightarrow> False
          | Some r \<Rightarrow> has_date r \<and> mentions_exp_or_jti r))
      \<or> (case err_statusCode err of None \<Rightarrow> False | Some s \<Rightarrow> s = 429 \<or> s \<ge> 500))"

text \<open>
  The errors on which every property \<open>isJWTAuthErrorRetryable\<close> reads is there: an
  auth-expired error has a response, and when that has a \<open>date\<close> header its body has
  an \<open>error_description\<close> of type string.
\<close>

definition reads_defined :: "sdk_error \<Rightarrow> bool" where
  "reads_defined err =
     (if authExpired err then
        (case err_response err of
           None \<Rightarrow> False
         | Some r \<Rightarrow>
             if has_date r then
               (case get (resp_body r) ''error_description'' of
                  JStr d \<Rightarrow> \<not> nullish (resp_body r)
                | JUndefined \<Rightarrow> False | JNull \<Rightarrow> False | JBool b \<Rightarrow> False
                | JNum n \<Rightarrow> False)
             else True)
      else True)"

section \<open>API sessions: the refresh contract of getAccessToken\<close>

text \<open>
  Modelled from the spec: the session classes (sessions/app-auth-session,
  sessions/persistent-session, sessions/ccg-session) are among the sources only as
  declarations, which show the fields \<open>_tokenInfo\<close> and \<open>_refreshPromise\<close> and no
  code. The model follows section 4.4 of the specification on the single-threaded event
  loop of section 5: a call of \<open>getAccessToken\<close> runs to its end without
  interruption, and the grant call it may start settles in a later turn of the loop.

  \<open>refreshPromise\<close> is the in-flight marker, holding the number of the refresh promise
  in flight; \<open>grantCalls\<close> counts the grant calls made to the token manager;
  \<open>awaiting\<close> lists the callers blocked on a refresh with the promise each awaits;
  \<open>received\<close> lists what callers got back, an error or an access token.
\<close>

record session =
  sess_tokenInfo :: "token_info option"
  refreshPromise :: "nat option"
  grantCalls :: nat
  awaiting :: "(nat \<times> nat) list"
  received :: "(nat \<times> (sdk_error + jsval)) list"

record session_config =
  expiredBufferMS :: int
  staleBufferMS :: int

text \<open>
  Modelled from the spec: a token is held and is valid outside the given buffer
  ("a token is valid outside an optional buffer iff
  acquiredAtMS + accessTokenTTLMS - bufferMS > now").
\<close>

definition holds_valid_token :: "int \<Rightarrow> int \<Rightarrow> session \<Rightarrow> bool" where
  "holds_valid_token bufferMS now s =
     (case sess_tokenInfo s of
        None \<Rightarrow> False
      | Some ti \<Rightarrow> isAccessTokenValid now ti (Some (Num (of_int bufferMS))))"

text \<open>
  Modelled from the spec: starting a refresh. When none is in flight, one grant call is
  made and its promise becomes the in-flight marker; when one is in flight, nothing is
  started.
\<close>

definition startRefresh :: "session \<Rightarrow> session" where
  "startRefresh s =
     (case refreshPromise s of
        Some p \<Rightarrow> s
      | None \<Rightarrow> s\<lparr>refreshPromise := Some (grantCalls s), grantCalls := Suc (grantCalls s)\<rparr>)"

text \<open>Modelled from the spec: the access token of the cached TokenInfo, which a caller
  gets when no refresh is needed.\<close>

definition current_token :: "session \<Rightarrow> jsval" where
  "current_token s =
     (case sess_tokenInfo s of None \<Rightarrow> JUndefined | Some ti \<Rightarrow> accessToken ti)"

text \<open>
  Modelled from the spec: \<open>getAccessToken\<close> called by \<open>caller\<close> at time \<open>now\<close>.
  With no token or an expired one the caller is blocked on the refresh in flight,
  which is started if there is none. With a token that is valid but inside the stale
  buffer the caller gets the current token at once and a background refresh is kicked
  off. With a fully valid token the caller gets it at once and nothing is refreshed.
\<close>

definition getAccessToken :: "session_config \<Rightarrow> nat \<Rightarrow> int \<Rightarrow> session \<Rightarrow> session" where
  "getAccessToken cfg caller now s =
     (if \<not> holds_valid_token (expiredBufferMS cfg) now s then
        (let s1 = startRefresh s
         in case refreshPromise s1 of
              None \<Rightarrow> s1
            | Some p \<Rightarrow> s1\<lparr>awaiting := awaiting s1 @ [(caller, p)]\<rparr>)
      else if \<not> holds_valid_token (staleBufferMS cfg) now s then
        (startRefresh s)\<lparr>received := received s @ [(caller, Inr (current_token s))]\<rparr>
      else s\<lparr>received := received s @ [(caller, Inr (current_token s))]\<rparr>)"

text \<open>
  Modelled from the spec: the refresh in flight settles with an error or a new
  TokenInfo. A new TokenInfo is cached; every caller awaiting this promise receives the
  outcome, the same for all; the in-flight marker is cleared on success and on failure
  alike.
\<close>

definition outcome_for_caller :: "sdk_error + token_info \<Rightarrow> sdk_error + jsval" where
  "outcome_for_caller result =
     (case result of Inl e \<Rightarrow> Inl e | Inr ti \<Rightarrow> Inr (accessToken ti))"

definition refreshSettled :: "sdk_error + token_info \<Rightarrow> session \<Rightarrow> session" where
  "refreshSettled result s =
     (case refreshPromise s of
        None \<Rightarrow> s
      | Some p \<Rightarrow>
          s\<lparr>sess_tokenInfo := (case result of Inl e \<Rightarrow> sess_tokenInfo s | Inr ti \<Rightarrow> Some ti),
            refreshPromise := None,
            awaiting := filter (\<lambda>w. snd w \<noteq> p) (awaiting s),
            received := received s
              @ map (\<lambda>w. (fst w, outcome_for_caller result))
                  (filter (\<lambda>w. snd w = p) (awaiting s))\<rparr>)"

text \<open>A burst of calls, each a caller with the time of its call, with no turn of the
  loop in between in which the refresh could settle.\<close>

fun calls :: "session_config \<Rightarrow> (nat \<times> int) list \<Rightarrow> session \<Rightarrow> session" where
  "calls cfg [] s = s"
| "calls cfg (c # cs) s = calls cfg cs (getAccessToken cfg (fst c) (snd c) s)"

text \<open>No call of the burst finds a valid token cached.\<close>

fun none_valid :: "session_config \<Rightarrow> (nat \<times> int) list \<Rightarrow> session \<Rightarrow> bool" where
  "none_valid cfg [] s = True"
| "none_valid cfg (c # cs) s =
     (\<not> holds_valid_token (expiredBufferMS cfg) (snd c) s \<and> none_valid cfg cs s)"

definition new_session :: session where
  "new_session =
     \<lparr>sess_tokenInfo = None, refreshPromise = None, grantCalls = 0, awaiting = [],
      received = []\<rparr>"

definition ex_session_config :: session_config where
  "ex_session_config = \<lparr>expiredBufferMS = 180000, staleBufferMS = 0\<rparr>"

section \<open>Config (util/config.js)\<close>

subsection \<open>Parameter objects\<close>













subsection \<open>The merge-options library\<close>






subsection \<open>Private part of config.js\<close>















subsection \<open>The Config class\<close>




subsection \<open>Frozen objects and writes\<close>






subsection \<open>Concrete configurations\<close>








section \<open>Properties of the request executor\<close>

subsection \<open>Failure classification\<close>

lemma isTemporaryError_iff:
  "isTemporaryError r \<longleftrightarrow>
     (500 \<le> statusCode r \<and> statusCode r \<le> 599 \<and> statusCode r \<noteq> 507)
     \<or> statusCode r = 408 \<or> statusCode r = 429"
  by (auto simp: isTemporaryError_def Let_def INSUFFICIENT_STORAGE_def
      HTTP_STATUS_CODE_SERVER_ERROR_BLOCK_RANGE_def retryableStatusCodes_def
      REQUEST_TIMEOUT_def TOO_MANY_REQUESTS_def)





subsection \<open>The retry budget\<close>

lemma retry_inv:
  "budget_inv st \<Longrightarrow> retry g el e st = (a, st') \<Longrightarrow>
   budget_inv st' \<and> this_config st' = this_config st"
  by (auto simp: retry_def Let_def budget_inv_def retries_so_far_def finish_def schedule_def
      split: if_splits option.splits strategy_result.splits)

lemma handle_inv:
  "budget_inv st \<Longrightarrow> handleResponse g el err resp st = (a, st') \<Longrightarrow>
   budget_inv st' \<and> this_config st' = this_config st"
  unfolding handleResponse_def Let_def
  apply (simp split: option.splits if_splits)
  apply (auto simp: budget_inv_def retries_so_far_def finish_def emit_def
      dest!: retry_inv[unfolded budget_inv_def retries_so_far_def, rotated])
  done

lemma execute_inv:
  "budget_inv st \<Longrightarrow>
   budget_inv (execute c st) \<and> this_config (execute c st) = this_config st"
  by (simp add: execute_def Let_def budget_inv_def retries_so_far_def)

lemma attempts_inv:
  "budget_inv st \<Longrightarrow>
   budget_inv (attempts g as st) \<and> this_config (attempts g as st) = this_config st"
proof (induction as arbitrary: st)
  case Nil
  then show ?case by simp
next
  case (Cons a as)
  obtain act st' where
    h: "handleResponse g (att_elapsedMS a) (att_err a) (att_response a) st = (act, st')"
    by (cases "handleResponse g (att_elapsedMS a) (att_err a) (att_response a) st")
  from handle_inv[OF Cons.prems h]
  have i: "budget_inv st'" and c: "this_config st' = this_config st" by auto
  show ?case
  proof (cases act)
    case Done
    with h i c show ?thesis by simp
  next
    case (Retrying d)
    from execute_inv[OF i]
    have "budget_inv (execute False st')"
      "this_config (execute False st') = this_config st'" by auto
    with Cons.IH[of "execute False st'"] h Retrying c show ?thesis by simp
  next
    case (Threw x)
    with h i c show ?thesis by simp
  qed
qed

lemma run_budget:
  "int (length (timers (run g as (APIRequest cfg h)))) \<le> max 0 (numMaxRetries cfg)"
proof -
  let ?st = "execute True (APIRequest cfg h)"
  have c: "this_config ?st = cfg"
    by (simp add: execute_def Let_def APIRequest_def)
  have "budget_inv ?st"
    by (simp add: execute_def Let_def budget_inv_def retries_so_far_def APIRequest_def)
  from attempts_inv[OF this, of g as]
  have "budget_inv (attempts g as ?st)"
    "this_config (attempts g as ?st) = this_config ?st" by auto
  with c show ?thesis unfolding run_def budget_inv_def by simp
qed

lemma retry_exhausted:
  "numMaxRetries (this_config st) \<le> (case numRetries st of None \<Rightarrow> 0 | Some k \<Rightarrow> k) \<Longrightarrow>
   retry g el err st =
     (Done, st\<lparr>numRetries := Some (case numRetries st of None \<Rightarrow> 0 | Some k \<Rightarrow> k),
               delivered := delivered st @ [(Some (err\<lparr>maxRetriesExceeded := True\<rparr>), None)]\<rparr>)"
  by (simp add: retry_def Let_def finish_def)

lemma first_attempt_exhausted:
  assumes "numMaxRetries cfg \<le> 0" "\<not> formData (cfg_request cfg)" "\<not> isJWT (cfg_request cfg)"
    and "classify (att_err a) (att_response a) = Some e"
  shows "delivered (run g (a # as) (APIRequest cfg h)) =
           [(Some ((attach (length h) (att_response a) e)\<lparr>maxRetriesExceeded := True\<rparr>), None)]"
proof -
  let ?st = "execute True (APIRequest cfg h)"
  have ne: "\<not> (att_err a = None \<and> att_response a = None)"
    using assms(4) by (auto simp: classify_def split: option.splits)
  have st: "this_request ?st = Some (length h)" "length (heap ?st) = Suc (length h)"
    "isRetryable ?st" "this_config ?st = cfg" "numRetries ?st = None" "delivered ?st = []"
    using assms(2) by (simp_all add: execute_def APIRequest_def Let_def isRequestRetryable_def)
  show ?thesis
    unfolding run_def attempts.simps
    using ne assms st
    by (simp add: handleResponse_def Let_def emit_def retry_exhausted finish_def retry_def)
qed

text \<open>A request with multipart form data, and a JWT grant request, never enter
  \<open>_retry\<close>: the error of the first attempt goes to the callback as it is.\<close>

lemma first_attempt_unretryable:
  assumes "formData (cfg_request cfg) \<or> isJWT (cfg_request cfg)"
    and "classify (att_err a) (att_response a) = Some e"
  shows "timers (run g (a # as) (APIRequest cfg h)) = []"
    and "delivered (run g (a # as) (APIRequest cfg h)) =
           [(Some (attach (length h) (att_response a) e), None)]"
proof -
  let ?st = "execute True (APIRequest cfg h)"
  have ne: "\<not> (att_err a = None \<and> att_response a = None)"
    using assms(2) by (auto simp: classify_def split: option.splits)
  have st: "this_request ?st = Some (length h)" "length (heap ?st) = Suc (length h)"
    "isRetryable ?st = (\<not> formData (cfg_request cfg))" "this_config ?st = cfg"
    "delivered ?st = []" "timers ?st = []"
    by (simp_all add: execute_def APIRequest_def Let_def isRequestRetryable_def)
  have "handleResponse g (att_elapsedMS a) (att_err a) (att_response a) ?st =
      (Done, ?st\<lparr>heap := (heap ?st)[length h := cleanSensitiveHeaders (heap ?st ! length h)],
                  emitted := emitted ?st @ [(Some (attach (length h) (att_response a) e), None)],
                  delivered := [(Some (attach (length h) (att_response a) e), None)]\<rparr>)"
  proof (cases "formData (cfg_request cfg)")
    case True
    with ne assms(2) st show ?thesis
      by (simp add: handleResponse_def Let_def emit_def finish_def)
  next
    case False
    with assms(1) have "isJWT (cfg_request cfg)" by simp
    with ne assms(2) st show ?thesis
      by (simp add: handleResponse_def Let_def emit_def finish_def)
  qed
  then show "timers (run g (a # as) (APIRequest cfg h)) = []"
    and "delivered (run g (a # as) (APIRequest cfg h)) =
           [(Some (attach (length h) (att_response a) e), None)]"
    unfolding run_def attempts.simps using st by simp_all
qed

text \<open>One failing attempt of a retryable request without a retry strategy: with retries
  left a timer is set and the retry is counted; with none left the error is marked and
  handed to the callback.\<close>

lemma failing_attempt_retried:
  assumes "this_request st = Some a" "a < length (heap st)" "isRetryable st"
    and "\<not> isJWT (cfg_request (this_config st))" "retryStrategy (this_config st) = None"
    and "classify err resp = Some e"
    and "retries_so_far st < numMaxRetries (this_config st)"
  shows "\<exists>d st'. handleResponse g el err resp st = (Retrying d, st')
           \<and> timers st' = timers st @ [d] \<and> delivered st' = delivered st
           \<and> numRetries st' = Some (retries_so_far st + 1)
           \<and> length (heap st') = length (heap st) \<and> this_config st' = this_config st
           \<and> isRetryable st' = isRetryable st"
proof -
  have ne: "\<not> (err = None \<and> resp = None)"
    using assms(6) by (auto simp: classify_def split: option.splits)
  show ?thesis
    using assms ne
    by (auto simp: handleResponse_def Let_def emit_def retry_def schedule_def
        retries_so_far_def split: option.splits)
qed

lemma failing_attempt_exhausted:
  assumes "this_request st = Some a" "a < length (heap st)" "isRetryable st"
    and "\<not> isJWT (cfg_request (this_config st))"
    and "classify err resp = Some e"
    and "numMaxRetries (this_config st) \<le> retries_so_far st"
  shows "handleResponse g el err resp st =
           (Done, st\<lparr>heap := (heap st)[a := cleanSensitiveHeaders (heap st ! a)],
                     emitted := emitted st @ [(Some (attach a resp e), None)],
                     numRetries := Some (retries_so_far st),
                     delivered := delivered st
                       @ [(Some ((attach a resp e)\<lparr>maxRetriesExceeded := True\<rparr>), None)]\<rparr>)"
proof -
  have ne: "\<not> (err = None \<and> resp = None)"
    using assms(5) by (auto simp: classify_def split: option.splits)
  show ?thesis
    using assms ne
    by (simp add: handleResponse_def Let_def emit_def retry_def finish_def retries_so_far_def)
qed

text \<open>
  A retryable request without a retry strategy whose attempts all fail: each attempt
  but the last sets a timer, and the last one, which finds the budget used up, hands
  its error to the callback, marked. The state is the one an \<open>execute\<close> leaves: the
  current request is the last object of the store.
\<close>

lemma attempts_until_exhausted:
  assumes "this_request st = Some (length (heap st) - 1)" "heap st \<noteq> []" "isRetryable st"
    and "\<not> isJWT (cfg_request (this_config st))" "retryStrategy (this_config st) = None"
    and "0 \<le> retries_so_far st"
    and "numMaxRetries (this_config st) = retries_so_far st + int (length fs)"
    and "list_all (\<lambda>f. classify (att_err f) (att_response f) \<noteq> None) fs"
    and "classify (att_err a) (att_response a) = Some e"
  shows "length (timers (attempts g (fs @ a # as) st)) = length (timers st) + length fs
    \<and> delivered (attempts g (fs @ a # as) st) =
        delivered st
        @ [(Some ((attach (length (heap st) - 1 + length fs) (att_response a) e)
                    \<lparr>maxRetriesExceeded := True\<rparr>), None)]"
  using assms
proof (induction fs arbitrary: st)
  case Nil
  have "length (heap st) - 1 < length (heap st)" using Nil.prems(2) by (cases "heap st") simp_all
  with Nil.prems show ?case
    by (simp add: failing_attempt_exhausted[where a = "length (heap st) - 1" and e = e])
next
  case (Cons f fs)
  let ?a = "length (heap st) - 1"
  have lt: "?a < length (heap st)" using Cons.prems(2) by (cases "heap st") simp_all
  from Cons.prems(8) obtain ef where ef: "classify (att_err f) (att_response f) = Some ef"
    by auto
  have left: "retries_so_far st < numMaxRetries (this_config st)"
    using Cons.prems(7) by simp
  from failing_attempt_retried[OF Cons.prems(1) lt Cons.prems(3,4,5) ef left,
      of g "att_elapsedMS f"]
  obtain d st' where h: "handleResponse g (att_elapsedMS f) (att_err f) (att_response f) st
        = (Retrying d, st')"
    and t: "timers st' = timers st @ [d]" and dl: "delivered st' = delivered st"
    and n: "numRetries st' = Some (retries_so_far st + 1)"
    and hp: "length (heap st') = length (heap st)" and c: "this_config st' = this_config st"
    and r: "isRetryable st' = isRetryable st"
    by blast
  let ?s = "execute False st'"
  have s: "this_request ?s = Some (length (heap ?s) - 1)" "heap ?s \<noteq> []"
    "isRetryable ?s = isRetryable st" "this_config ?s = this_config st"
    "retries_so_far ?s = retries_so_far st + 1" "timers ?s = timers st @ [d]"
    "delivered ?s = delivered st" "length (heap ?s) = Suc (length (heap st))"
    using t dl n hp c r by (simp_all add: execute_def Let_def retries_so_far_def)
  have "length (timers (attempts g (fs @ a # as) ?s)) = length (timers ?s) + length fs
    \<and> delivered (attempts g (fs @ a # as) ?s) =
        delivered ?s
        @ [(Some ((attach (length (heap ?s) - 1 + length fs) (att_response a) e)
                    \<lparr>maxRetriesExceeded := True\<rparr>), None)]"
  proof (rule Cons.IH)
    show "this_request ?s = Some (length (heap ?s) - 1)" by (rule s(1))
    show "heap ?s \<noteq> []" by (rule s(2))
    show "isRetryable ?s" using s(3) Cons.prems(3) by simp
    show "\<not> isJWT (cfg_request (this_config ?s))" using s(4) Cons.prems(4) by simp
    show "retryStrategy (this_config ?s) = None" using s(4) Cons.prems(5) by simp
    show "0 \<le> retries_so_far ?s" using s(5) Cons.prems(6) by simp
    show "numMaxRetries (this_config ?s) = retries_so_far ?s + int (length fs)"
      using s(4,5) Cons.prems(7) by simp
    show "list_all (\<lambda>f. classify (att_err f) (att_response f) \<noteq> None) fs"
      using Cons.prems(8) by simp
    show "classify (att_err a) (att_response a) = Some e" by (rule Cons.prems(9))
  qed
  moreover have "length (heap ?s) - 1 + length fs = length (heap st) - 1 + length (f # fs)"
    using s(8) Cons.prems(2) by (cases "heap st") simp_all
  ultimately show ?case using h s(6,7) by simp
qed

lemma run_until_exhausted:
  assumes "\<not> formData (cfg_request cfg)" "\<not> isJWT (cfg_request cfg)" "retryStrategy cfg = None"
    and "numMaxRetries cfg = int (length fs)"
    and "list_all (\<lambda>f. classify (att_err f) (att_response f) \<noteq> None) fs"
    and "classify (att_err a) (att_response a) = Some e"
  shows "length (timers (run g (fs @ a # as) (APIRequest cfg h))) = length fs
    \<and> delivered (run g (fs @ a # as) (APIRequest cfg h)) =
        [(Some ((attach (length h + length fs) (att_response a) e)
                  \<lparr>maxRetriesExceeded := True\<rparr>), None)]"
proof -
  let ?st = "execute True (APIRequest cfg h)"
  have st: "this_request ?st = Some (length (heap ?st) - 1)" "heap ?st \<noteq> []"
    "isRetryable ?st" "this_config ?st = cfg" "retries_so_far ?st = 0"
    "timers ?st = []" "delivered ?st = []" "length (heap ?st) - 1 = length h"
    using assms(1)
    by (simp_all add: execute_def APIRequest_def Let_def isRequestRetryable_def
        retries_so_far_def)
  have "length (timers (attempts g (fs @ a # as) ?st)) = length (timers ?st) + length fs
    \<and> delivered (attempts g (fs @ a # as) ?st) =
        delivered ?st
        @ [(Some ((attach (length (heap ?st) - 1 + length fs) (att_response a) e)
                    \<lparr>maxRetriesExceeded := True\<rparr>), None)]"
    using st assms by (intro attempts_until_exhausted) simp_all
  then show ?thesis unfolding run_def using st(6,7,8) by simp
qed

text \<open>
  Claim C3, as stated, fails for the requests that never enter the retry loop: with
  \<open>numMaxRetries = 0\<close>, a multipart upload and a JWT grant request that are answered
  with status 503 hand the error to the callback at once, and the error is not marked
  \<open>maxRetriesExceeded\<close>.
\<close>

theorem unretryable_error_unmarked:
  "numMaxRetries (ex_multipart 0) = 0 \<and> numMaxRetries (ex_jwt_grant 0) = 0
   \<and> formData (cfg_request (ex_multipart 0)) \<and> isJWT (cfg_request (ex_jwt_grant 0))
   \<and> isTemporaryError (ex_response 503 Map.empty BUndefined)
   \<and> map (map_option origin \<circ> fst)
        (delivered (run ex_backoff [ex_attempt 503] (APIRequest (ex_multipart 0) [])))
       = [Some (StatusError 503)]
   \<and> map (map_option maxRetriesExceeded \<circ> fst)
        (delivered (run ex_backoff [ex_attempt 503] (APIRequest (ex_multipart 0) [])))
       = [Some False]
   \<and> map (map_option origin \<circ> fst)
        (delivered (run ex_backoff [ex_attempt 503] (APIRequest (ex_jwt_grant 0) [])))
       = [Some (StatusError 503)]
   \<and> map (map_option maxRetriesExceeded \<circ> fst)
        (delivered (run ex_backoff [ex_attempt 503] (APIRequest (ex_jwt_grant 0) [])))
       = [Some False]"
  by (simp add: run_def handleResponse_def classify_def isTemporaryError_iff ex_response_def
      ex_attempt_def execute_def APIRequest_def Let_def ex_config_def ex_options_def
      ex_multipart_def ex_jwt_grant_def isRequestRetryable_def isJWT_def emit_def
      finish_def attach_def createErrorForResponse_def newError_def request_lib_def)

text \<open>
  Claim C3, amended. One logical buffered request sets at most \<open>numMaxRetries\<close> retry
  timers, whatever the transport answers and whatever the strategy and the backoff
  return; with \<open>numMaxRetries = 0\<close> it sets none. Once the retry count has reached
  \<open>numMaxRetries\<close>, \<open>_retry\<close> marks the error with \<open>maxRetriesExceeded\<close> and hands it
  to the callback. For a request that enters the retry loop (no multipart form data, no
  JWT grant): without a retry strategy, when every attempt fails, exactly
  \<open>numMaxRetries\<close> retries are made and the error of the attempt after them reaches
  the callback, marked; and with a budget of 0, or less, the error of the first attempt
  reaches the callback at once, marked, whatever the strategy. A request with multipart
  form data and a JWT grant request never enter the loop: the error of the first attempt
  reaches the callback at once, as it is, with no mark added and no timer set, whatever
  the budget.
\<close>

theorem retry_budget:
  "int (length (timers (run g as (APIRequest cfg h)))) \<le> max 0 (numMaxRetries cfg)
   \<and> (numMaxRetries cfg = 0 \<longrightarrow> timers (run g as (APIRequest cfg h)) = [])
   \<and> (numMaxRetries (this_config st) \<le> (case numRetries st of None \<Rightarrow> 0 | Some k \<Rightarrow> k) \<longrightarrow>
        retry g el err st =
          (Done, st\<lparr>numRetries := Some (case numRetries st of None \<Rightarrow> 0 | Some k \<Rightarrow> k),
                    delivered := delivered st
                      @ [(Some (err\<lparr>maxRetriesExceeded := True\<rparr>), None)]\<rparr>))
   \<and> (\<not> formData (cfg_request cfg) \<and> \<not> isJWT (cfg_request cfg) \<and> retryStrategy cfg = None
        \<and> numMaxRetries cfg = int (length fs)
        \<and> list_all (\<lambda>f. classify (att_err f) (att_response f) \<noteq> None) fs
        \<and> classify (att_err a) (att_response a) = Some e \<longrightarrow>
        length (timers (run g (fs @ a # as') (APIRequest cfg h))) = length fs
        \<and> delivered (run g (fs @ a # as') (APIRequest cfg h)) =
            [(Some ((attach (length h + length fs) (att_response a) e)
                      \<lparr>maxRetriesExceeded := True\<rparr>), None)])
   \<and> (numMaxRetries cfg \<le> 0 \<and> \<not> formData (cfg_request cfg) \<and> \<not> isJWT (cfg_request cfg)
        \<and> classify (att_err a) (att_response a) = Some e \<longrightarrow>
        delivered (run g (a # as') (APIRequest cfg h)) =
          [(Some ((attach (length h) (att_response a) e)\<lparr>maxRetriesExceeded := True\<rparr>), None)])
   \<and> ((formData (cfg_request cfg) \<or> isJWT (cfg_request cfg))
        \<and> classify (att_err a) (att_response a) = Some e \<longrightarrow>
        timers (run g (a # as') (APIRequest cfg h)) = []
        \<and> delivered (run g (a # as') (APIRequest cfg h)) =
            [(Some (attach (length h) (att_response a) e), None)])"
proof -
  have b: "int (length (timers (run g as (APIRequest cfg h)))) \<le> max 0 (numMaxRetries cfg)"
    by (rule run_budget)
  then have z: "numMaxRetries cfg = 0 \<longrightarrow> timers (run g as (APIRequest cfg h)) = []"
    by auto
  show ?thesis
    using b z
    by (simp add: retry_exhausted first_attempt_exhausted first_attempt_unretryable
        run_until_exhausted)
qed

theorem retry_budget_witness:
  "numMaxRetries (ex_config 2) = int (length [ex_attempt 503, ex_attempt 429])
   \<and> \<not> formData (cfg_request (ex_config 2)) \<and> \<not> isJWT (cfg_request (ex_config 2))
   \<and> retryStrategy (ex_config 2) = None
   \<and> list_all (\<lambda>f. classify (att_err f) (att_response f) \<noteq> None)
        [ex_attempt 503, ex_attempt 429]
   \<and> classify (att_err (ex_attempt 500)) (att_response (ex_attempt 500))
       = Some (createErrorForResponse (ex_response 500 Map.empty BUndefined))
   \<and> length (timers (run ex_backoff [ex_attempt 503, ex_attempt 429, ex_attempt 500, ex_attempt 200]
                (APIRequest (ex_config 2) []))) = 2
   \<and> map (map_option (\<lambda>e. (origin e, maxRetriesExceeded e)) \<circ> fst)
        (delivered (run ex_backoff [ex_attempt 503, ex_attempt 429, ex_attempt 500, ex_attempt 200]
                (APIRequest (ex_config 2) [])))
       = [Some (StatusError 500, True)]
   \<and> numMaxRetries (ex_config 0) = 0
   \<and> timers (run ex_backoff [ex_attempt 503, ex_attempt 200] (APIRequest (ex_config 0) [])) = []
   \<and> map (map_option maxRetriesExceeded \<circ> fst)
        (delivered (run ex_backoff [ex_attempt 503, ex_attempt 200] (APIRequest (ex_config 0) [])))
       = [Some True]
   \<and> formData (cfg_request (ex_multipart 2))
   \<and> timers (run ex_backoff [ex_attempt 503, ex_attempt 200] (APIRequest (ex_multipart 2) [])) = []
   \<and> map (map_option maxRetriesExceeded \<circ> fst)
        (delivered (run ex_backoff [ex_attempt 503, ex_attempt 200] (APIRequest (ex_multipart 2) [])))
       = [Some False]"
  using retry_budget[of ex_backoff "[ex_attempt 503, ex_attempt 200]" "ex_config 0" "[]"
      "APIRequest (ex_config 0) []" 0
      "createErrorForResponse (ex_response 503 Map.empty BUndefined)" "[]" "ex_attempt 503"
      "createErrorForResponse (ex_response 503 Map.empty BUndefined)" "[ex_attempt 200]"]
    retry_budget[of ex_backoff "[]" "ex_config 2" "[]"
      "APIRequest (ex_config 2) []" 0
      "createErrorForResponse (ex_response 500 Map.empty BUndefined)"
      "[ex_attempt 503, ex_attempt 429]" "ex_attempt 500"
      "createErrorForResponse (ex_response 500 Map.empty BUndefined)" "[ex_attempt 200]"]
    retry_budget[of ex_backoff "[]" "ex_multipart 2" "[]"
      "APIRequest (ex_multipart 2) []" 0
      "createErrorForResponse (ex_response 503 Map.empty BUndefined)" "[]" "ex_attempt 503"
      "createErrorForResponse (ex_response 503 Map.empty BUndefined)" "[ex_attempt 200]"]
  by (simp add: ex_config_def ex_options_def ex_multipart_def isJWT_def ex_attempt_def
      classify_def isTemporaryError_iff ex_response_def attach_def createErrorForResponse_def
      newError_def)

text \<open>
  Two runs with a budget of two retries and the backoff \<open>ex_backoff\<close>: three responses
  with status 503 use both retries and end with the marked error; a 503 followed by a
  200 uses one retry and ends with the response.
\<close>

lemma retries_until_exhausted:
  "timers (run ex_backoff [ex_attempt 503, ex_attempt 503, ex_attempt 503, ex_attempt 200]
             (APIRequest (ex_config 2) []))
     = [Num 2000, Num 4000]
   \<and> map (map_option (\<lambda>e. (origin e, maxRetriesExceeded e)) \<circ> fst)
        (delivered (run ex_backoff [ex_attempt 503, ex_attempt 503, ex_attempt 503, ex_attempt 200]
             (APIRequest (ex_config 2) [])))
     = [Some (StatusError 503, True)]"
  by (simp add: run_def handleResponse_def classify_def isTemporaryError_iff ex_response_def
      ex_attempt_def execute_def APIRequest_def Let_def ex_config_def ex_options_def
      isRequestRetryable_def isJWT_def emit_def retry_def retry_after_def schedule_def
      finish_def attach_def createErrorForResponse_def newError_def ex_backoff_def
      request_lib_def)

lemma retry_then_success:
  "timers (run ex_backoff [ex_attempt 503, ex_attempt 200, ex_attempt 503]
             (APIRequest (ex_config 2) []))
     = [Num 2000]
   \<and> delivered (run ex_backoff [ex_attempt 503, ex_attempt 200, ex_attempt 503]
             (APIRequest (ex_config 2) []))
     = [(None, Some (ex_response 200 Map.empty BUndefined))]"
  by (simp add: run_def handleResponse_def classify_def isTemporaryError_iff ex_response_def
      ex_attempt_def execute_def APIRequest_def Let_def ex_config_def ex_options_def
      isRequestRetryable_def isJWT_def emit_def retry_def retry_after_def schedule_def
      finish_def attach_def createErrorForResponse_def newError_def ex_backoff_def
      request_lib_def)

subsection \<open>Streaming mode\<close>

lemma stream_response_effect:
  "on_stream_response r st =
     st\<lparr>emitted := emitted st @
        [if 400 \<le> statusCode r \<and> statusCode r < 500
         then (Some (createErrorForResponse r), None) else (None, Some r)]\<rparr>"
  by (simp add: on_stream_response_def isClientErrorResponse_def emit_def)

text \<open>
  Claim C10. In streaming mode (\<open>execute\<close> without a callback) the handler of the
  stream's \<open>'response'\<close> event puts exactly one event on the bus: the error made from
  the response when the status is in [400, 500), and the response itself, with no
  error, for every other status; so for 500, 507 and 599. It sets no timer, calls no
  callback and counts no retry, and the request object stays the stream the consumer
  reads.
\<close>

theorem streaming_response_handling:
  "emitted (on_stream_response r (execute False (APIRequest cfg h))) =
     [if 400 \<le> statusCode r \<and> statusCode r < 500
      then (Some (createErrorForResponse r), None) else (None, Some r)]
   \<and> timers (on_stream_response r (execute False (APIRequest cfg h))) = []
   \<and> delivered (on_stream_response r (execute False (APIRequest cfg h))) = []
   \<and> numRetries (on_stream_response r (execute False (APIRequest cfg h))) = None
   \<and> this_stream (on_stream_response r (execute False (APIRequest cfg h))) = Some (length h)
   \<and> emitted (on_stream_response (r\<lparr>statusCode := 507\<rparr>) st)
       = emitted st @ [(None, Some (r\<lparr>statusCode := 507\<rparr>))]
   \<and> emitted (on_stream_response (r\<lparr>statusCode := 500\<rparr>) st)
       = emitted st @ [(None, Some (r\<lparr>statusCode := 500\<rparr>))]
   \<and> emitted (on_stream_response (r\<lparr>statusCode := 599\<rparr>) st)
       = emitted st @ [(None, Some (r\<lparr>statusCode := 599\<rparr>))]"
  by (simp add: on_stream_response_def isClientErrorResponse_def emit_def execute_def
      APIRequest_def Let_def)

subsection \<open>Redaction of the sensitive headers\<close>

lemma redact_cases:
  "redact k h k = None \<or> redact k h k = Some [] \<or> redact k h k = Some REMOVED_HEADER_MESSAGE"
  by (auto simp: redact_def split: option.splits)

lemma redact_other: "k' \<noteq> k \<Longrightarrow> redact k h k' = h k'"
  by (auto simp: redact_def split: option.splits)

lemma clean_cases:
  "req_headers (cleanSensitiveHeaders q) = Some h' \<Longrightarrow>
   k = ''Authorization'' \<or> k = ''BoxApi'' \<Longrightarrow>
   h' k = None \<or> h' k = Some [] \<or> h' k = Some REMOVED_HEADER_MESSAGE"
  using redact_cases[of "''Authorization''" "redact ''BoxApi'' (the (req_headers q))"]
    redact_cases[of "''BoxApi''" "the (req_headers q)"]
  by (auto simp: cleanSensitiveHeaders_def redact_other split: option.splits)

lemma retry_heap: "heap (snd (retry g el e st)) = heap st"
  by (auto simp: retry_def Let_def finish_def schedule_def
      split: option.splits strategy_result.splits)

lemma handleResponse_heap:
  "this_request st = Some a \<Longrightarrow> a < length (heap st) \<Longrightarrow>
   heap (snd (handleResponse g el err resp st))
     = (heap st)[a := cleanSensitiveHeaders (heap st ! a)]"
  by (auto simp: handleResponse_def Let_def finish_def emit_def retry_heap split: option.splits)

text \<open>
  In buffered mode the request object that the emitted error and the response point at
  has both headers overwritten (or absent, or empty) once the handler has run.
\<close>

lemma buffered_redacts:
  assumes "this_request st = Some a" "a < length (heap st)"
    and "req_headers (heap (snd (handleResponse g el err resp st)) ! a) = Some h'"
    and "k = ''Authorization'' \<or> k = ''BoxApi''"
  shows "h' k = None \<or> h' k = Some [] \<or> h' k = Some REMOVED_HEADER_MESSAGE"
  using assms clean_cases[of "heap st ! a" h' k] by (simp add: handleResponse_heap)

text \<open>
  Claim C9, in streaming mode. A streaming request with an \<open>Authorization\<close> and a
  \<open>BoxApi\<close> header gets a response with status 200: the response is emitted on the
  event bus, it points at request object 0, and that object still holds both headers
  with their original values. In buffered mode the headers are overwritten first
  (\<open>buffered_redacts\<close>); the stream handlers never call \<open>cleanSensitiveHeaders\<close>.
\<close>

theorem streaming_leaves_headers:
  "emitted (on_stream_response (ex_response 200 Map.empty BUndefined)
              (execute False (APIRequest (ex_config 5) [])))
     = [(None, Some (ex_response 200 Map.empty BUndefined))]
   \<and> resp_request (ex_response 200 Map.empty BUndefined) = 0
   \<and> map_option (\<lambda>h. h ''Authorization'')
        (req_headers (heap (on_stream_response (ex_response 200 Map.empty BUndefined)
                              (execute False (APIRequest (ex_config 5) []))) ! 0))
       = Some (Some ''Bearer t0ken'')
   \<and> map_option (\<lambda>h. h ''BoxApi'')
        (req_headers (heap (on_stream_response (ex_response 200 Map.empty BUndefined)
                              (execute False (APIRequest (ex_config 5) []))) ! 0))
       = Some (Some ''shared_link=s'')"
  by (simp add: stream_response_effect execute_def APIRequest_def Let_def ex_response_def
      ex_config_def ex_options_def request_lib_def)

subsection \<open>Reading numbers\<close>

lemma floor_rat_numeral: "\<lfloor>numeral a / numeral b :: rat\<rfloor> = numeral a div numeral b"
  by (metis floor_divide_of_int_eq of_int_numeral)

lemma ceiling_rat_numeral:
  "\<lceil>numeral a / numeral b :: rat\<rceil> = - (- numeral a div numeral b)"
  unfolding ceiling_def
  by (metis floor_divide_of_int_eq of_int_numeral of_int_minus minus_divide_left)

lemmas read_number =
  toNumber_def trim_def is_space_def unsigned_literal_def unsigned_decimal_def is_digit_def
  pow10_def num_def Let_def

lemma toNumber_examples:
  "toNumber ''5'' = Num 5" "toNumber ''17000000305'' = Num 17000000305"
  "toNumber ''1.5'' = Num (3 / 2)" "toNumber '' 7 '' = Num 7" "toNumber ''1e3'' = Num 1000"
  "toNumber ''0x10'' = Num 16" "toNumber ''Infinity'' = PosInf"
  "toNumber ''Tue, 14 Nov 2023 22:13:20 GMT'' = NaN"
  by (simp_all add: read_number digits_of_def radix_digit_def)

lemma num_finite: "\<bar>q\<bar> < 10 ^ 24 \<Longrightarrow> num q = Num q"
proof -
  assume a: "\<bar>q\<bar> < 10 ^ 24"
  have "(10 :: rat) ^ 24 < 2 ^ 1024 - 2 ^ 970" by simp
  with a show ?thesis by (auto simp: num_def)
qed

lemma show_nat_example: "show_nat 1700000030 = ''1700000030''"
  by (simp add: show_nat.simps digit_char_def)

subsection \<open>The \<open>retry-after\<close> header\<close>

text \<open>
  In the executor's \<open>_retry\<close>, without a retry strategy and with retries left, a
  \<open>retry-after\<close> header of the failed response, on a response that has its headers as
  a property of its own, sets the timer to its value times 1000, and the backoff
  function is not consulted.
\<close>

lemma retry_after_overrides_backoff:
  assumes "retryStrategy (this_config st) = None"
    and "(case numRetries st of None \<Rightarrow> 0 | Some k \<Rightarrow> k) < numMaxRetries (this_config st)"
    and "err_response err = Some r" and "headers_own r"
    and "resp_headers r ''retry-after'' = Some v"
  shows "fst (retry g el err st) = Retrying (times (toNumber v) 1000)"
    and "timers (snd (retry g el err st)) = timers st @ [times (toNumber v) 1000]"
  using assms by (simp_all add: retry_def retry_after_def Let_def schedule_def)

text \<open>Where the headers are an accessor of the prototype the header is not found, and
  the backoff decides.\<close>

lemma retry_after_not_own:
  assumes "retryStrategy (this_config st) = None"
    and "(case numRetries st of None \<Rightarrow> 0 | Some k \<Rightarrow> k) < numMaxRetries (this_config st)"
    and "err_response err = Some r" and "\<not> headers_own r"
  shows "fst (retry g el err st)
           = Retrying (g ((case numRetries st of None \<Rightarrow> 0 | Some k \<Rightarrow> k) + 1)
                         (retryIntervalMS (this_config st)))"
  using assms by (simp add: retry_def retry_after_def Let_def schedule_def)

lemma retry_after_5:
  "fst (handleResponse ex_backoff 7 None
          (Some (ex_response 429 [''retry-after'' \<mapsto> ''5''] BUndefined))
          (execute True (APIRequest (ex_config 5) [])))
     = Retrying (Num 5000)"
  by (simp add: handleResponse_def classify_def isTemporaryError_iff ex_response_def
      execute_def APIRequest_def Let_def ex_config_def ex_options_def isRequestRetryable_def
      isJWT_def emit_def retry_def retry_after_def schedule_def attach_def
      createErrorForResponse_def newError_def toNumber_examples num_def)

text \<open>
  Claim C2, in the token manager. The JWT grant fails with status 429 and
  \<open>retry-after: 5\<close>; no retry strategy is configured and all five retries remain. The
  error is retryable, and \<open>retryJWTGrant\<close> waits \<open>Promise.delay('5')\<close>, which is 5
  milliseconds and not 5000, before the next request (the executor sets 5000, see
  \<open>retry_after_5\<close>). The expiry claim is the text of the time plus the expiration
  window with the header's text appended.
\<close>

theorem jwt_retry_after_delay:
  "numMaxRetries (ex_config 5) = 5 \<and> retryStrategy (ex_config 5) = None
   \<and> map_option (\<lambda>r. resp_headers r ''retry-after'') (err_response ex_rate_limited)
       = Some (Some ''5'')
   \<and> isJWTAuthErrorRetryable ex_rate_limited = Inr True
   \<and> retryJWTGrant ex_backoff 7 1700000000000 (\<lambda>d. NaN) (\<lambda>e. Inr ''signed'')
        (ex_config 5) ex_rate_limited 0
       = Delay (Num 5) (Num 17000000305) ''signed'' 1"
  by (simp add: retryJWTGrant_def ex_config_def ex_rate_limited_def attach_def
      createErrorForResponse_def newError_def ex_response_def isJWTAuthErrorRetryable_def
      isJWTAuthErrorRetryable_status_def has_date_def Let_def retry_after_def show_int_def
      floor_rat_numeral show_nat_example toNumber_examples)

text \<open>
  The same failure on a response whose headers are no property of its own, as Node
  from 15.1 on builds it: the header is not found, the backoff gives 2000 milliseconds,
  which become 2 seconds, and \<open>retryJWTGrant\<close> waits \<open>Promise.delay(2)\<close>, 2
  milliseconds.
\<close>

lemma jwt_backoff_delay:
  "retryJWTGrant ex_backoff 7 1700000000000 (\<lambda>d. NaN) (\<lambda>e. Inr ''signed'') (ex_config 5)
     (attach 0
        (Some ((ex_response 429 [''retry-after'' \<mapsto> ''5''] BUndefined)\<lparr>headers_own := False\<rparr>))
        (createErrorForResponse (ex_response 429 [''retry-after'' \<mapsto> ''5''] BUndefined)))
     0
   = Delay (Num 2) (Num 1700000032) ''signed'' 1"
  by (simp add: retryJWTGrant_def ex_config_def attach_def createErrorForResponse_def
      newError_def ex_response_def isJWTAuthErrorRetryable_def
      isJWTAuthErrorRetryable_status_def has_date_def Let_def retry_after_def ex_backoff_def
      floor_rat_numeral ceiling_rat_numeral)

section \<open>Properties of the token manager\<close>

subsection \<open>What \<open>parseInt\<close> reads from a number\<close>

lemma integer_part_of_int: "integer_part (of_int n) = n"
  by (simp add: integer_part_def)

lemma integer_part_bound: "\<bar>of_int (integer_part q) :: rat\<bar> \<le> \<bar>q\<bar>"
proof (cases "q < 0")
  case True
  then have "of_int \<lfloor>- q\<rfloor> \<le> - q" "0 \<le> \<lfloor>- q\<rfloor>" by simp_all
  with True show ?thesis by (simp add: integer_part_def)
next
  case False
  then have "of_int \<lfloor>q\<rfloor> \<le> q" "0 \<le> \<lfloor>q\<rfloor>" by simp_all
  with False show ?thesis by (simp add: integer_part_def)
qed

lemma leading_digit_range: "1 \<le> q \<Longrightarrow> 1 \<le> leading_digit q \<and> leading_digit q \<le> 9"
proof (induction q rule: leading_digit.induct)
  case (1 q)
  show ?case
  proof (cases "q < 10")
    case True
    then have "\<lfloor>q\<rfloor> < 10" by (simp add: floor_less_iff)
    moreover have "1 \<le> \<lfloor>q\<rfloor>" using "1.prems" by (simp add: le_floor_iff)
    ultimately show ?thesis using True by (simp add: leading_digit.simps[of q])
  next
    case False
    then have "1 \<le> q / 10" by simp
    with "1.IH" False show ?thesis by (simp add: leading_digit.simps[of q])
  qed
qed

lemma first_significant_range:
  "0 < q \<Longrightarrow> q < 1 \<Longrightarrow> 1 \<le> first_significant q \<and> first_significant q \<le> 9"
proof (induction q rule: first_significant.induct)
  case (1 q)
  show ?case
  proof (cases "q * 10 < 1")
    case True
    with "1.IH" "1.prems" show ?thesis by (simp add: first_significant.simps[of q])
  next
    case False
    then have a: "1 \<le> q * 10" "q * 10 < 10" using "1.prems" by simp_all
    then have "\<lfloor>q * 10\<rfloor> < 10" "1 \<le> \<lfloor>q * 10\<rfloor>"
      by (simp_all add: floor_less_iff le_floor_iff)
    then show ?thesis
      using "1.prems" a
      by (simp add: first_significant.simps[of q] first_significant.simps[of "q * 10"])
  qed
qed

lemma times_thousand:
  assumes "\<bar>k\<bar> < 10 ^ 21"
  shows "times (Num (of_int k)) 1000 = Num (of_int (k * 1000))"
proof -
  have "\<bar>k * 1000\<bar> < 10 ^ 24" using assms by (simp add: abs_mult)
  then have "\<bar>(of_int (k * 1000) :: rat)\<bar> < of_int (10 ^ 24)"
    by (metis of_int_abs of_int_less_iff)
  then have "\<bar>(of_int k :: rat) * 1000\<bar> < 10 ^ 24" by simp
  then show ?thesis by (simp add: num_finite)
qed

lemma parseInt10_whole:
  assumes "\<bar>n\<bar> < 10 ^ 21"
  shows "parseInt10 (JNum (Num (of_int n))) = Num (of_int n)"
proof (cases "n = 0")
  case True
  then show ?thesis by simp
next
  case False
  have "\<bar>(of_int n :: rat)\<bar> < of_int (10 ^ 21)"
    using assms by (metis of_int_abs of_int_less_iff)
  then have s: "\<not> 10 ^ 21 \<le> \<bar>of_int n :: rat\<bar>" by simp
  from False have "1 \<le> \<bar>n\<bar>" by simp
  then have "(1 :: rat) \<le> \<bar>of_int n\<bar>" by (metis of_int_abs of_int_1_le_iff)
  then have t: "\<not> \<bar>of_int n :: rat\<bar> < 1 / 10 ^ 6" by simp
  have z: "(of_int n :: rat) \<noteq> 0" using False by simp
  show ?thesis
    unfolding parseInt10.simps using s t z by (simp only: if_False integer_part_of_int)
qed

lemma parseInt10_fraction:
  assumes "1 / 10 ^ 6 \<le> \<bar>q\<bar>" "\<bar>q\<bar> < 10 ^ 21"
  shows "parseInt10 (JNum (Num q)) = Num (of_int (integer_part q))"
proof -
  have z: "q \<noteq> 0" using assms(1) by auto
  have s: "\<not> 10 ^ 21 \<le> \<bar>q\<bar>" using assms(2) by simp
  have t: "\<not> \<bar>q\<bar> < 1 / 10 ^ 6" using assms(1) by simp
  show ?thesis
    unfolding parseInt10.simps using s t z by (simp only: if_False)
qed

lemma parseInt10_large:
  assumes "10 ^ 21 \<le> \<bar>q\<bar>"
  shows "parseInt10 (JNum (Num q))
           = Num (of_int ((if q < 0 then - 1 else 1) * leading_digit \<bar>q\<bar>))"
proof -
  have z: "q \<noteq> 0" using assms by auto
  show ?thesis
    unfolding parseInt10.simps using assms z by (simp only: if_False if_True)
qed

lemma parseInt10_small:
  assumes "q \<noteq> 0" "\<bar>q\<bar> < 1 / 10 ^ 6"
  shows "parseInt10 (JNum (Num q))
           = Num (of_int ((if q < 0 then - 1 else 1) * first_significant \<bar>q\<bar>))"
proof -
  have s: "\<not> 10 ^ 21 \<le> \<bar>q\<bar>" using assms(2) by simp
  show ?thesis
    unfolding parseInt10.simps using assms s by (simp only: if_False if_True)
qed

lemma lifetime_whole:
  assumes "\<bar>n\<bar> < 10 ^ 21"
  shows "times (parseInt10 (JNum (Num (of_int n)))) 1000 = Num (of_int (n * 1000))"
  by (simp only: parseInt10_whole[OF assms] times_thousand[OF assms])

lemma lifetime_fraction:
  assumes "1 / 10 ^ 6 \<le> \<bar>q\<bar>" "\<bar>q\<bar> < 10 ^ 21"
  shows "times (parseInt10 (JNum (Num q))) 1000 = Num (of_int (integer_part q * 1000))"
proof -
  have "\<bar>of_int (integer_part q) :: rat\<bar> < of_int (10 ^ 21)"
    using integer_part_bound[of q] assms(2) by simp
  then have b: "\<bar>integer_part q\<bar> < 10 ^ 21" by (metis of_int_abs of_int_less_iff)
  show ?thesis by (simp only: parseInt10_fraction[OF assms] times_thousand[OF b])
qed

lemma signed_digit_bound: "1 \<le> d \<Longrightarrow> d \<le> 9 \<Longrightarrow> \<bar>(if c then - 1 else 1) * d\<bar> < (10 :: int) ^ 21"
  by (simp add: abs_mult)

lemma lifetime_large:
  assumes "10 ^ 21 \<le> \<bar>q\<bar>"
  shows "times (parseInt10 (JNum (Num q))) 1000
           = Num (of_int ((if q < 0 then - 1 else 1) * leading_digit \<bar>q\<bar> * 1000))"
    and "1 \<le> leading_digit \<bar>q\<bar>" and "leading_digit \<bar>q\<bar> \<le> 9"
proof -
  have one: "1 \<le> \<bar>q\<bar>" using assms by simp
  from leading_digit_range[OF one]
  show r: "1 \<le> leading_digit \<bar>q\<bar>" "leading_digit \<bar>q\<bar> \<le> 9" by simp_all
  show "times (parseInt10 (JNum (Num q))) 1000
           = Num (of_int ((if q < 0 then - 1 else 1) * leading_digit \<bar>q\<bar> * 1000))"
    by (simp only: parseInt10_large[OF assms] times_thousand[OF signed_digit_bound[OF r]])
qed

lemma lifetime_small:
  assumes "q \<noteq> 0" "\<bar>q\<bar> < 1 / 10 ^ 6"
  shows "times (parseInt10 (JNum (Num q))) 1000
           = Num (of_int ((if q < 0 then - 1 else 1) * first_significant \<bar>q\<bar> * 1000))"
    and "1 \<le> first_significant \<bar>q\<bar>" and "first_significant \<bar>q\<bar> \<le> 9"
proof -
  have pos: "0 < \<bar>q\<bar>" "\<bar>q\<bar> < 1" using assms by simp_all
  from first_significant_range[OF pos]
  show r: "1 \<le> first_significant \<bar>q\<bar>" "first_significant \<bar>q\<bar> \<le> 9" by simp_all
  show "times (parseInt10 (JNum (Num q))) 1000
           = Num (of_int ((if q < 0 then - 1 else 1) * first_significant \<bar>q\<bar> * 1000))"
    by (simp only: parseInt10_small[OF assms] times_thousand[OF signed_digit_bound[OF r]])
qed

subsection \<open>Parsing a grant response\<close>

lemma isValidTokenResponse_iff:
  "isValidTokenResponse g b \<longleftrightarrow>
     (\<exists>a. get b ''access_token'' = JStr a \<and> a \<noteq> [])
     \<and> (\<exists>x. get b ''expires_in'' = JNum x)
     \<and> (if g = ''authorization_code'' \<or> g = ''refresh_token''
         then (\<exists>t. get b ''refresh_token'' = JStr t \<and> t \<noteq> []) else True)"
  by (auto simp: isValidTokenResponse_def isValidCodeOrToken_def is_number_def
      split: jsval.splits)

lemma invalid_grant_truthy:
  "get b ''error'' \<noteq> JStr ''invalid_grant'' \<Longrightarrow>
   \<not> (truthy_body b \<and> get b ''error'' = JStr ''invalid_grant'')"
  by simp

lemma getTokens_ok:
  assumes "statusCode r = 200" "\<not> isBuffer (resp_body r)" "\<not> nullish (resp_body r)"
    and "get (resp_body r) ''error'' \<noteq> JStr ''invalid_grant''"
  shows "getTokens now g (Inr r) =
     (if isValidTokenResponse g (resp_body r)
      then Inr (getTokensFromGrantResponse now (resp_body r))
      else Inl (buildResponseError r (ResponseError ''Token format from response invalid'')))"
  using assms by (simp add: getTokens_def)

text \<open>With status 200 and no body at all (or \<open>null\<close>) the promise is rejected with the
  TypeError of the property read.\<close>

lemma getTokens_null_body:
  "statusCode r = 200 \<Longrightarrow> nullish (resp_body r) \<Longrightarrow>
   getTokens now g (Inr r) = Inl (newError TypeError)"
  by (auto simp: getTokens_def nullish_def)

text \<open>
  Claim C4, as stated, fails: a client-credentials response with status 200 and body
  \<open>{access_token: "a1"}\<close> holds the one field the claim requires for that grant, yet
  \<open>getTokens\<close> rejects it with the malformed-response error, because
  \<open>expires_in\<close> is not a number; and so it does when \<open>expires_in\<close> is there as
  the string \<open>"3600"\<close>.
\<close>

theorem token_response_without_expiry_rejected:
  "statusCode (ex_response 200 Map.empty (BObject [(''access_token'', JStr ''a1'')])) = 200
   \<and> get (resp_body (ex_response 200 Map.empty (BObject [(''access_token'', JStr ''a1'')])))
        ''access_token'' = JStr ''a1''
   \<and> get (resp_body (ex_response 200 Map.empty (BObject [(''access_token'', JStr ''a1'')])))
        ''error'' = JUndefined
   \<and> getTokens 1700000000000 ''client_credentials''
        (Inr (ex_response 200 Map.empty (BObject [(''access_token'', JStr ''a1'')])))
       = Inl (buildResponseError
               (ex_response 200 Map.empty (BObject [(''access_token'', JStr ''a1'')]))
               (ResponseError ''Token format from response invalid''))
   \<and> getTokens 1700000000000 ''client_credentials''
        (Inr (ex_response 200 Map.empty
               (BObject [(''access_token'', JStr ''a1''), (''expires_in'', JStr ''3600'')])))
       = Inl (buildResponseError
               (ex_response 200 Map.empty
                  (BObject [(''access_token'', JStr ''a1''), (''expires_in'', JStr ''3600'')]))
               (ResponseError ''Token format from response invalid''))"
  by (simp add: getTokens_def ex_response_def nullish_def
      isValidTokenResponse_def isValidCodeOrToken_def is_number_def)

text \<open>
  Claim C4, amended. \<open>getTokens\<close> receives a response with status 200 whose body is
  present, is no Buffer and is no \<open>invalid_grant\<close> error. If \<open>access_token\<close> is a
  non-empty string, \<open>expires_in\<close> is of type number and, for the authorization-code
  and refresh-token grants, \<open>refresh_token\<close> is a non-empty string, the promise
  resolves to the TokenInfo with the two tokens copied from the body, the time read at
  parsing, and the lifetime \<open>parseInt(expires_in, 10) * 1000\<close>. That lifetime is
  \<open>expires_in\<close> times 1000 for a whole number below \<open>10^21\<close> in size; the part
  before the point times 1000 for any number from \<open>10^-6\<close> up to \<open>10^21\<close> in
  size, so that a fraction of a second is dropped; the first digit times 1000, with the
  sign, for a number of \<open>10^21\<close> or more and for one below \<open>10^-6\<close> that is not 0;
  and \<open>NaN\<close> for \<open>NaN\<close> and the infinities. Otherwise the promise is rejected with
  the response error "Token format from response invalid".
\<close>

theorem token_response_parsing:
  "(statusCode r = 200 \<and> \<not> isBuffer (resp_body r) \<and> \<not> nullish (resp_body r)
     \<and> get (resp_body r) ''error'' \<noteq> JStr ''invalid_grant''
     \<and> get (resp_body r) ''access_token'' = JStr a \<and> a \<noteq> []
     \<and> get (resp_body r) ''expires_in'' = JNum x
     \<and> (if g = ''authorization_code'' \<or> g = ''refresh_token''
         then \<exists>t. get (resp_body r) ''refresh_token'' = JStr t \<and> t \<noteq> [] else True)
     \<longrightarrow> getTokens now g (Inr r) =
           Inr \<lparr>accessToken = JStr a, refreshToken = get (resp_body r) ''refresh_token'',
                accessTokenTTLMS = Some (times (parseInt10 (JNum x)) 1000),
                acquiredAtMS = Some (Num (of_int now))\<rparr>)
   \<and> (\<bar>n\<bar> < 10 ^ 21 \<longrightarrow>
        times (parseInt10 (JNum (Num (of_int n)))) 1000 = Num (of_int (n * 1000)))
   \<and> (1 / 10 ^ 6 \<le> \<bar>q\<bar> \<and> \<bar>q\<bar> < 10 ^ 21 \<longrightarrow>
        times (parseInt10 (JNum (Num q))) 1000 = Num (of_int (integer_part q * 1000)))
   \<and> (10 ^ 21 \<le> \<bar>big\<bar> \<longrightarrow>
        times (parseInt10 (JNum (Num big))) 1000
          = Num (of_int ((if big < 0 then - 1 else 1) * leading_digit \<bar>big\<bar> * 1000))
        \<and> 1 \<le> leading_digit \<bar>big\<bar> \<and> leading_digit \<bar>big\<bar> \<le> 9)
   \<and> (tiny \<noteq> 0 \<and> \<bar>tiny\<bar> < 1 / 10 ^ 6 \<longrightarrow>
        times (parseInt10 (JNum (Num tiny))) 1000
          = Num (of_int ((if tiny < 0 then - 1 else 1) * first_significant \<bar>tiny\<bar> * 1000))
        \<and> 1 \<le> first_significant \<bar>tiny\<bar> \<and> first_significant \<bar>tiny\<bar> \<le> 9)
   \<and> times (parseInt10 (JNum NaN)) 1000 = NaN
   \<and> times (parseInt10 (JNum PosInf)) 1000 = NaN
   \<and> times (parseInt10 (JNum NegInf)) 1000 = NaN
   \<and> (statusCode r = 200 \<and> \<not> isBuffer (resp_body r) \<and> \<not> nullish (resp_body r)
       \<and> get (resp_body r) ''error'' \<noteq> JStr ''invalid_grant''
       \<and> \<not> ((\<exists>a. get (resp_body r) ''access_token'' = JStr a \<and> a \<noteq> [])
            \<and> (\<exists>x. get (resp_body r) ''expires_in'' = JNum x)
            \<and> (if g = ''authorization_code'' \<or> g = ''refresh_token''
                then \<exists>t. get (resp_body r) ''refresh_token'' = JStr t \<and> t \<noteq> [] else True))
     \<longrightarrow> getTokens now g (Inr r) =
           Inl (buildResponseError r (ResponseError ''Token format from response invalid'')))"
proof -
  have 1: "isValidTokenResponse g (resp_body r)"
    if "get (resp_body r) ''access_token'' = JStr a" "a \<noteq> []"
      "get (resp_body r) ''expires_in'' = JNum x"
      "if g = ''authorization_code'' \<or> g = ''refresh_token''
         then \<exists>t. get (resp_body r) ''refresh_token'' = JStr t \<and> t \<noteq> [] else True"
    using that unfolding isValidTokenResponse_iff by auto
  have ok: "statusCode r = 200 \<and> \<not> isBuffer (resp_body r) \<and> \<not> nullish (resp_body r)
     \<and> get (resp_body r) ''error'' \<noteq> JStr ''invalid_grant''
     \<and> get (resp_body r) ''access_token'' = JStr a \<and> a \<noteq> []
     \<and> get (resp_body r) ''expires_in'' = JNum x
     \<and> (if g = ''authorization_code'' \<or> g = ''refresh_token''
         then \<exists>t. get (resp_body r) ''refresh_token'' = JStr t \<and> t \<noteq> [] else True)
     \<longrightarrow> getTokens now g (Inr r) =
           Inr \<lparr>accessToken = JStr a, refreshToken = get (resp_body r) ''refresh_token'',
                accessTokenTTLMS = Some (times (parseInt10 (JNum x)) 1000),
                acquiredAtMS = Some (Num (of_int now))\<rparr>"
    apply (intro impI)
    apply (elim conjE)
    apply (simp add: getTokens_ok 1 getTokensFromGrantResponse_def)
    done
  have bad: "statusCode r = 200 \<and> \<not> isBuffer (resp_body r) \<and> \<not> nullish (resp_body r)
       \<and> get (resp_body r) ''error'' \<noteq> JStr ''invalid_grant''
       \<and> \<not> ((\<exists>a. get (resp_body r) ''access_token'' = JStr a \<and> a \<noteq> [])
            \<and> (\<exists>x. get (resp_body r) ''expires_in'' = JNum x)
            \<and> (if g = ''authorization_code'' \<or> g = ''refresh_token''
                then \<exists>t. get (resp_body r) ''refresh_token'' = JStr t \<and> t \<noteq> [] else True))
     \<longrightarrow> getTokens now g (Inr r) =
           Inl (buildResponseError r (ResponseError ''Token format from response invalid''))"
    apply (intro impI)
    apply (elim conjE)
    apply (subst getTokens_ok; simp add: isValidTokenResponse_iff)
    done
  have words: "times (parseInt10 (JNum NaN)) 1000 = NaN"
    "times (parseInt10 (JNum PosInf)) 1000 = NaN" "times (parseInt10 (JNum NegInf)) 1000 = NaN"
    by simp_all
  show ?thesis
    using ok bad words lifetime_whole[of n] lifetime_fraction[of q] lifetime_large[of big]
      lifetime_small[of tiny]
    by blast
qed

theorem token_response_parsing_witness:
  "statusCode (ex_response 200 Map.empty ex_grant_body) = 200
   \<and> getTokens 1700000000000 ''refresh_token'' (Inr (ex_response 200 Map.empty ex_grant_body))
       = Inr ex_token
   \<and> times (parseInt10 (JNum (Num (7201 / 2)))) 1000 = Num 3600000
   \<and> 1 \<le> leading_digit (10 ^ 21) \<and> leading_digit (10 ^ 21) \<le> 9
   \<and> times (parseInt10 (JNum (Num (10 ^ 21)))) 1000 = Num (of_int (leading_digit (10 ^ 21) * 1000))
   \<and> times (parseInt10 (JNum (Num (5 / 10 ^ 7)))) 1000
       = Num (of_int (first_significant (5 / 10 ^ 7) * 1000))
   \<and> getTokens 1700000000000 ''client_credentials''
        (Inr (ex_response 200 Map.empty (BObject [])))
       = Inl (buildResponseError (ex_response 200 Map.empty (BObject []))
               (ResponseError ''Token format from response invalid''))"
  using token_response_parsing[of "ex_response 200 Map.empty ex_grant_body" "''a1''" "Num 3600"
      "''refresh_token''" 1700000000000 3600 "7201 / 2" "10 ^ 21" "5 / 10 ^ 7"]
    token_response_parsing[of "ex_response 200 Map.empty (BObject [])" "''a1''" "Num 3600"
      "''client_credentials''" 1700000000000 3600 "7201 / 2" "10 ^ 21" "5 / 10 ^ 7"]
  by (simp add: ex_response_def ex_grant_body_def ex_token_def nullish_def integer_part_def
      floor_rat_numeral)

text \<open>The lifetimes of 3600.5 seconds, of \<open>10^21\<close> seconds, which prints as
  \<open>1e+21\<close>, and of \<open>5e-7\<close> seconds.\<close>

lemma lifetime_examples:
  "times (parseInt10 (JNum (Num (7201 / 2)))) 1000 = Num 3600000"
  "times (parseInt10 (JNum (Num (10 ^ 21)))) 1000 = Num 1000"
  "times (parseInt10 (JNum (Num (5 / 10 ^ 7)))) 1000 = Num 5000"
  by (simp_all add: integer_part_def floor_rat_numeral leading_digit.simps
      first_significant.simps num_def)

subsection \<open>Validity of an access token\<close>



subsection \<open>Retryable JWT errors\<close>

text \<open>Where \<open>isJWTAuthErrorRetryable\<close> returns, it returns what the specification
  says; everywhere else it reads a property of \<open>undefined\<close> and throws.\<close>

lemma jwt_retryable_defined:
  "reads_defined err \<Longrightarrow> isJWTAuthErrorRetryable err = Inr (retryable_by_spec err)"
  by (auto simp: reads_defined_def isJWTAuthErrorRetryable_def retryable_by_spec_def
      mentions_exp_or_jti_def isJWTAuthErrorRetryable_status_def
      split: option.splits jsval.splits if_splits)

lemma jwt_retryable_undefined:
  "\<not> reads_defined err \<Longrightarrow> isJWTAuthErrorRetryable err = Inl TypeError"
  by (auto simp: reads_defined_def isJWTAuthErrorRetryable_def nullish_def
      split: option.splits jsval.splits if_splits body.splits)

lemma jwt_retryable_examples:
  "isJWTAuthErrorRetryable ex_expired_jwt = Inr True"
  "isJWTAuthErrorRetryable ex_rate_limited = Inr True"
  "isJWTAuthErrorRetryable (newError (Transport ''ECONNRESET'')) = Inr False"
  by (simp_all add: isJWTAuthErrorRetryable_def ex_expired_jwt_def ex_rate_limited_def
      buildAuthError_def buildResponseError_def ex_response_def has_date_def attach_def
      createErrorForResponse_def newError_def nullish_def isJWTAuthErrorRetryable_status_def)

text \<open>
  The way to the failing error. A JWT grant request is answered with status 507, which
  the executor does not take for a temporary failure: the response goes to the
  callback as a response. Its body says \<open>invalid_grant\<close> and gives no description, so
  \<open>getTokens\<close> rejects with the authentication error built from the response.
\<close>

lemma storage_full_reaches_getTokens:
  "delivered (run ex_backoff
       [\<lparr>att_err = None, att_response = Some ex_storage_full, att_elapsedMS = 12\<rparr>]
       (APIRequest (ex_jwt_grant 5) []))
     = [(None, Some ex_storage_full)]"
  by (simp add: run_def handleResponse_def classify_def isTemporaryError_iff ex_storage_full_def
      ex_response_def execute_def APIRequest_def Let_def emit_def finish_def)

lemma storage_full_error_built:
  "getTokens 1700000000000 JWT_BEARER (Inr ex_storage_full) = Inl ex_auth_expired_507"
  by (simp add: getTokens_def ex_storage_full_def ex_response_def ex_auth_expired_507_def
      buildAuthError_def buildResponseError_def)

text \<open>
  Claim C6 fails on an error the token manager builds itself. The error is marked
  \<open>authExpired\<close>, its response has status 507 and a \<open>date\<close> header, and the body has
  no \<open>error_description\<close>. By the claim the error is retryable, the status being at
  least 500. \<open>isJWTAuthErrorRetryable\<close> does not return true: it calls \<open>indexOf\<close>
  on the missing description and throws a TypeError, and with it \<open>retryJWTGrant\<close>
  throws the TypeError in place of the error of the grant.
\<close>

theorem jwt_retryable_throws:
  "authExpired ex_auth_expired_507
   \<and> err_statusCode ex_auth_expired_507 = Some 507
   \<and> err_response ex_auth_expired_507 = Some ex_storage_full
   \<and> resp_headers ex_storage_full ''date'' = Some ''Tue, 14 Nov 2023 22:13:20 GMT''
   \<and> resp_body ex_storage_full = BObject [(''error'', JStr ''invalid_grant'')]
   \<and> isJWTAuthErrorRetryable ex_auth_expired_507 = Inl TypeError
   \<and> retryJWTGrant ex_backoff 7 1700000000000 (\<lambda>d. Num 1700000000000)
        (\<lambda>e. Inr ''signed'') (ex_config 5) ex_auth_expired_507 0
       = Throw (newError TypeError)"
  by (simp add: isJWTAuthErrorRetryable_def retryJWTGrant_def ex_auth_expired_507_def
      ex_storage_full_def ex_response_def has_date_def nullish_def ex_config_def Let_def)

section \<open>Properties of the session model\<close>

text \<open>The cached token decides what a call does; the other fields do not matter.\<close>

lemma none_valid_frame:
  "sess_tokenInfo s' = sess_tokenInfo s \<Longrightarrow> none_valid cfg cs s' = none_valid cfg cs s"
  by (induction cs) (simp_all add: holds_valid_token_def)

lemma calls_in_flight:
  assumes "refreshPromise s = Some p" "none_valid cfg cs s"
  shows "calls cfg cs s = s\<lparr>awaiting := awaiting s @ map (\<lambda>c. (fst c, p)) cs\<rparr>"
  using assms
proof (induction cs arbitrary: s)
  case Nil
  then show ?case by simp
next
  case (Cons c cs)
  let ?s1 = "getAccessToken cfg (fst c) (snd c) s"
  have s1: "?s1 = s\<lparr>awaiting := awaiting s @ [(fst c, p)]\<rparr>"
    using Cons.prems by (simp add: getAccessToken_def startRefresh_def Let_def)
  have "none_valid cfg cs ?s1"
    using Cons.prems none_valid_frame[of ?s1 s cfg cs] by (simp add: s1)
  moreover have "refreshPromise ?s1 = Some p" using Cons.prems by (simp add: s1)
  ultimately have "calls cfg cs ?s1 = ?s1\<lparr>awaiting := awaiting ?s1 @ map (\<lambda>c. (fst c, p)) cs\<rparr>"
    by (rule Cons.IH[rotated])
  then show ?case by (simp add: s1)
qed

lemma calls_single_flight:
  assumes "refreshPromise s = None" "none_valid cfg (c # cs) s"
  shows "calls cfg (c # cs) s =
     s\<lparr>refreshPromise := Some (grantCalls s), grantCalls := Suc (grantCalls s),
       awaiting := awaiting s @ map (\<lambda>c. (fst c, grantCalls s)) (c # cs)\<rparr>"
proof -
  let ?s1 = "getAccessToken cfg (fst c) (snd c) s"
  have s1: "?s1 = s\<lparr>refreshPromise := Some (grantCalls s), grantCalls := Suc (grantCalls s),
       awaiting := awaiting s @ [(fst c, grantCalls s)]\<rparr>"
    using assms by (simp add: getAccessToken_def startRefresh_def Let_def)
  have "none_valid cfg cs ?s1"
    using assms none_valid_frame[of ?s1 s cfg cs] by (simp add: s1)
  moreover have "refreshPromise ?s1 = Some (grantCalls s)" by (simp add: s1)
  ultimately have "calls cfg cs ?s1 = ?s1\<lparr>awaiting := awaiting ?s1 @ map (\<lambda>c. (fst c, grantCalls s)) cs\<rparr>"
    by (rule calls_in_flight[rotated])
  then show ?thesis by (simp add: s1)
qed

text \<open>
  Claim C7. A session has no refresh in flight and nobody waiting, and a burst of one
  or more \<open>getAccessToken\<close> calls arrives, none of which finds a valid token cached.
  Then exactly one grant call is made, every caller of the burst awaits the promise of
  that one call, and when it settles, with a token or with an error, every caller
  receives that same outcome, in the order of the calls, and the in-flight marker is
  cleared. A call that then finds no valid token and no refresh in flight starts a new
  grant call.
\<close>

theorem single_flight_refresh:
  "(refreshPromise s = None \<and> awaiting s = [] \<and> none_valid cfg (c # cs) s \<longrightarrow>
      grantCalls (calls cfg (c # cs) s) = Suc (grantCalls s)
      \<and> refreshPromise (calls cfg (c # cs) s) = Some (grantCalls s)
      \<and> awaiting (calls cfg (c # cs) s) = map (\<lambda>c. (fst c, grantCalls s)) (c # cs)
      \<and> received (refreshSettled result (calls cfg (c # cs) s))
          = received s @ map (\<lambda>c. (fst c, outcome_for_caller result)) (c # cs)
      \<and> grantCalls (refreshSettled result (calls cfg (c # cs) s)) = Suc (grantCalls s)
      \<and> refreshPromise (refreshSettled result (calls cfg (c # cs) s)) = None
      \<and> awaiting (refreshSettled result (calls cfg (c # cs) s)) = [])
   \<and> (refreshPromise s = None \<and> \<not> holds_valid_token (expiredBufferMS cfg) now s \<longrightarrow>
        grantCalls (getAccessToken cfg caller now s) = Suc (grantCalls s)
        \<and> refreshPromise (getAccessToken cfg caller now s) = Some (grantCalls s))"
proof -
  have "map ((\<lambda>w. (fst w, outcome_for_caller result)) \<circ> (\<lambda>c. (fst c, grantCalls s))) cs
      = map (\<lambda>c. (fst c, outcome_for_caller result)) cs"
    by (rule map_cong) simp_all
  then show ?thesis
    by (auto simp: calls_single_flight refreshSettled_def getAccessToken_def startRefresh_def Let_def
        simp del: calls.simps none_valid.simps)
qed

theorem single_flight_refresh_witness:
  "refreshPromise new_session = None \<and> awaiting new_session = []
   \<and> none_valid ex_session_config [(1, 1700000000000), (2, 1700000000005), (3, 1700000000005)] new_session
   \<and> grantCalls (calls ex_session_config [(1, 1700000000000), (2, 1700000000005), (3, 1700000000005)] new_session) = 1
   \<and> received (refreshSettled (Inr ex_token)
        (calls ex_session_config [(1, 1700000000000), (2, 1700000000005), (3, 1700000000005)] new_session))
      = [(1, Inr (JStr ''a1'')), (2, Inr (JStr ''a1'')), (3, Inr (JStr ''a1''))]
   \<and> refreshPromise (refreshSettled (Inr ex_token)
        (calls ex_session_config [(1, 1700000000000), (2, 1700000000005), (3, 1700000000005)] new_session)) = None
   \<and> grantCalls (getAccessToken ex_session_config 4 1700000000900
        (refreshSettled (Inl (newError (Transport ''ECONNRESET'')))
          (calls ex_session_config [(1, 1700000000000), (2, 1700000000005), (3, 1700000000005)] new_session))) = 2"
  using single_flight_refresh[of new_session ex_session_config "(1, 1700000000000)"
      "[(2, 1700000000005), (3, 1700000000005)]" "Inr ex_token" 0 0]
    single_flight_refresh[of "refreshSettled (Inl (newError (Transport ''ECONNRESET'')))
          (calls ex_session_config [(1, 1700000000000), (2, 1700000000005), (3, 1700000000005)] new_session)"
       ex_session_config "(1, 1700000000000)" "[]" "Inr ex_token" 1700000000900 4]
  by (simp add: new_session_def holds_valid_token_def outcome_for_caller_def ex_token_def
      ex_session_config_def getAccessToken_def startRefresh_def refreshSettled_def Let_def)

section \<open>Properties of Config\<close>

subsection \<open>New objects are not frozen\<close>













subsection \<open>The constructor freezes, and a frozen tree takes no write\<close>






subsection \<open>When \<open>extend\<close> returns the merge itself\<close>


subsection \<open>Two extensions of one Config\<close>











end
